theory Spec2Isabelle
  imports Complex_Main "HOL-Library.Sublist"
begin

section \<open>The products service of server.js\<close>

text \<open>
  The program is one Express application over one process-wide array \<open>products\<close>.
  The embedding follows server.js top to bottom: the error classes, the middleware
  functions, the route handlers in the order in which they are registered, and the
  order in which \<open>app.use\<close>, \<open>app.get\<close>, ... install them.

  Conventions.
  \<^item> A JavaScript string is a \<open>string\<close>; its characters are read as code units below 256
    (Latin-1), which fixes what \<open>toLowerCase\<close> and white space mean.
  \<^item> An integer produced by \<open>parseInt\<close> is an \<open>int\<close>; the program's doubles agree with it
    on the safe range (magnitude at most \<open>2 ^ 53\<close>).
  \<^item> A JSON number is a \<open>real\<close>. The program never computes with one; it only asks for its
    \<open>typeof\<close>.
  \<^item> A value that may be \<open>undefined\<close> is an \<open>option\<close>, \<open>None\<close> being \<open>undefined\<close>.
  \<^item> A \<open>throw\<close>, or a call \<open>next(err)\<close>, is the left injection of a sum.
  \<^item> The array \<open>products\<close> is passed in and returned.
  \<^item> What the libraries decide is an input: the outcome of \<open>bodyParser.json()\<close> is a field
    of the request, the string that \<open>uuidv4()\<close> returns and the runtime's printing of
    numbers are fields of \<open>runtime\<close>. \<open>logger\<close> only writes to the console and calls
    \<open>next()\<close>; it has no counterpart here.
\<close>

subsection \<open>Strings\<close>

definition toLowerCase_char :: "char \<Rightarrow> char" where
  "toLowerCase_char c =
     (let n = (of_char c :: nat)
      in if (65 \<le> n \<and> n \<le> 90) \<or> (192 \<le> n \<and> n \<le> 222 \<and> n \<noteq> 215)
         then char_of (n + 32) else c)"

definition toLowerCase :: "string \<Rightarrow> string" where
  "toLowerCase s = map toLowerCase_char s"

text \<open>\<open>s.includes(q)\<close>: does \<open>q\<close> occur in \<open>s\<close> at some position.\<close>

fun includes_str :: "string \<Rightarrow> string \<Rightarrow> bool" where
  "includes_str [] q = (q = [])"
| "includes_str (c # cs) q = (prefix q (c # cs) \<or> includes_str cs q)"

text \<open>\<open>Array.prototype.join\<close> with the default separator.\<close>

fun join_comma :: "string list \<Rightarrow> string" where
  "join_comma [] = []"
| "join_comma [x] = x"
| "join_comma (x # y # zs) = x @ '','' @ join_comma (y # zs)"

subsection \<open>parseInt\<close>

text \<open>
  \<open>parseInt(string)\<close> with no radix: skip leading white space, read a sign, read the
  prefix \<open>0x\<close> or \<open>0X\<close> (then the radix is 16, otherwise 10), read the longest run of
  digits of that radix; with no digit the result is \<open>NaN\<close>, here \<open>None\<close>.
\<close>

definition is_white_space :: "char \<Rightarrow> bool" where
  "is_white_space c = ((of_char c :: nat) \<in> {9, 10, 11, 12, 13, 32, 160})"

definition digit_value :: "char \<Rightarrow> nat option" where
  "digit_value c =
     (let n = (of_char c :: nat)
      in if 48 \<le> n \<and> n \<le> 57 then Some (n - 48)
         else if 97 \<le> n \<and> n \<le> 102 then Some (n - 87)
         else if 65 \<le> n \<and> n \<le> 70 then Some (n - 55)
         else None)"

definition is_digit :: "nat \<Rightarrow> char \<Rightarrow> bool" where
  "is_digit radix c = (case digit_value c of None \<Rightarrow> False | Some d \<Rightarrow> d < radix)"

definition digits_value :: "nat \<Rightarrow> string \<Rightarrow> int" where
  "digits_value radix z =
     foldl (\<lambda>acc c. acc * int radix + int (case digit_value c of None \<Rightarrow> 0 | Some d \<Rightarrow> d)) 0 z"

definition parseInt :: "string \<Rightarrow> int option" where
  "parseInt inputString =
     (let s = dropWhile is_white_space inputString;
          (sign, s) = (case s of
                         c # t \<Rightarrow> if c = CHR ''-'' then (- 1, t)
                                  else if c = CHR ''+'' then (1, t) else (1, s)
                       | [] \<Rightarrow> (1, s));
          (radix, s) = (case s of
                          c # d # t \<Rightarrow> if c = CHR ''0'' \<and> (d = CHR ''x'' \<or> d = CHR ''X'')
                                       then (16, t) else (10, s)
                        | _ \<Rightarrow> (10, s));
          z = takeWhile (is_digit radix) s
      in if z = [] then None else Some (sign * digits_value radix z))"

text \<open>\<open>n || d\<close> for a number \<open>n\<close>: \<open>NaN\<close> and \<open>0\<close> are falsy.\<close>

definition or_default :: "int option \<Rightarrow> int \<Rightarrow> int" where
  "or_default n d = (case n of None \<Rightarrow> d | Some v \<Rightarrow> if v = 0 then d else v)"

subsection \<open>Values\<close>

text \<open>What \<open>JSON.parse\<close> builds. An object keeps its members in source order; a later
  member with the same key overrides an earlier one.\<close>

datatype json =
    JNull
  | JBool bool
  | JNum real
  | JStr string
  | JArr "json list"
  | JObj "(string \<times> json) list"

datatype js_type = T_undefined | T_object | T_boolean | T_number | T_string

fun typeof :: "json option \<Rightarrow> js_type" where
  "typeof None = T_undefined"
| "typeof (Some JNull) = T_object"
| "typeof (Some (JBool b)) = T_boolean"
| "typeof (Some (JNum r)) = T_number"
| "typeof (Some (JStr s)) = T_string"
| "typeof (Some (JArr xs)) = T_object"
| "typeof (Some (JObj kvs)) = T_object"

text \<open>What the query parser puts under a key of \<open>req.query\<close>: a text, or (for a repeated
  or bracketed key) an array or an object.\<close>

datatype qval =
    QStr string
  | QArr "qval list"
  | QObj "(string \<times> qval) list"

text \<open>\<open>String(v)\<close>, the conversion \<open>parseInt\<close> applies to its argument.\<close>

fun String_of :: "qval \<Rightarrow> string" where
  "String_of (QStr s) = s"
| "String_of (QArr vs) = join_comma (map String_of vs)"
| "String_of (QObj kvs) = ''[object Object]''"

definition String_opt :: "qval option \<Rightarrow> string" where
  "String_opt v = (case v of None \<Rightarrow> ''undefined'' | Some q \<Rightarrow> String_of q)"

text \<open>The truth value of \<open>req.query.k\<close> in a condition.\<close>

fun truthy :: "qval option \<Rightarrow> bool" where
  "truthy None = False"
| "truthy (Some (QStr s)) = (s \<noteq> [])"
| "truthy (Some (QArr vs)) = True"
| "truthy (Some (QObj kvs)) = True"

subsection \<open>Errors\<close>

record err =
  err_name :: string
  err_status :: "nat option"
  err_message :: string

definition NotFoundError :: "string \<Rightarrow> err" where
  "NotFoundError message = \<lparr>err_name = ''NotFoundError'', err_status = Some 404, err_message = message\<rparr>"

definition ValidationError :: "string \<Rightarrow> err" where
  "ValidationError message = \<lparr>err_name = ''ValidationError'', err_status = Some 400, err_message = message\<rparr>"

text \<open>The runtime's own error for a property read on \<open>undefined\<close> or \<open>null\<close> and for a
  call of something that is no function. It has no \<open>status\<close>. Its message is the
  runtime's; the texts given below stand for it, and no property depends on them.\<close>

definition TypeError :: "string \<Rightarrow> err" where
  "TypeError message = \<lparr>err_name = ''TypeError'', err_status = None, err_message = message\<rparr>"

subsection \<open>Products, requests, responses\<close>

text \<open>A stored product. The handlers store what they read from the body, so a business
  field is any value or \<open>undefined\<close>.\<close>

record product =
  id_p :: string
  name :: "json option"
  description :: "json option"
  price :: "json option"
  category :: "json option"
  inStock :: "json option"

record envelope =
  page :: int
  limit :: int
  total :: nat
  data :: "product list"

text \<open>A value of the object \<open>stats\<close>: a count, or the text that \<open>+\<close> glues together when
  its left operand is no number.\<close>

datatype tally = Count nat | Glued string

datatype body =
    Json_product product
  | Json_products "product list"
  | Json_envelope envelope
  | Json_stats "(string \<times> tally) list"
  | Json_error string
  | Text string
  | Empty

text \<open>A response is a status and the value handed to \<open>res.json\<close> or \<open>res.send\<close>.
  \<open>Unhandled\<close>: no middleware and no route of server.js answered; the framework's
  final responder takes over.\<close>

datatype response = Response nat body | Unhandled

datatype http_method = GET | HEAD | POST | PUT | DELETE | OTHER

text \<open>\<open>req.body\<close> as \<open>bodyParser.json()\<close> leaves it, or the error it passes to \<open>next\<close>.
  \<open>Parsed None\<close> is a body left \<open>undefined\<close>.\<close>

datatype parsed = Parse_failed err | Parsed "json option"

text \<open>\<open>path\<close> is the path of the URL split at the slashes, without the empty piece before
  the first slash, percent-decoded: \<open>/api/products/\<close> is \<open>[''api'', ''products'', '''']\<close>.
  \<open>headers\<close> is keyed by lower-case header names.\<close>

record request =
  method_of :: http_method
  path :: "string list"
  query :: "string \<rightharpoonup> qval"
  headers :: "string \<rightharpoonup> string"
  body :: parsed

record runtime =
  uuidv4 :: string
  Number_toString :: "real \<Rightarrow> string"

subsection \<open>Middleware\<close>

text \<open>\<open>authMiddleware\<close>: \<open>Some r\<close> when it answers with \<open>r\<close>, \<open>None\<close> when it calls \<open>next()\<close>.\<close>

definition authMiddleware :: "request \<Rightarrow> response option" where
  "authMiddleware req =
     (let apiKey = headers req ''x-api-key''
      in if (case apiKey of None \<Rightarrow> True | Some k \<Rightarrow> k = []) \<or> apiKey \<noteq> Some ''mysecretapikey''
         then Some (Response 401 (Json_error ''Unauthorized: Invalid or missing API key''))
         else None)"

text \<open>\<open>b.k\<close> for a parsed body \<open>b\<close> that is not \<open>null\<close> and one of the five keys \<open>k\<close> the
  program reads: an own member of an object, \<open>undefined\<close> on everything else.\<close>

fun member_of :: "json \<Rightarrow> string \<Rightarrow> json option" where
  "member_of (JObj kvs) k = map_of (rev kvs) k"
| "member_of b k = None"

text \<open>\<open>const { name, description, price, category, inStock } = req.body\<close>.\<close>

definition destructure ::
  "json option \<Rightarrow> err + (json option \<times> json option \<times> json option \<times> json option \<times> json option)"
where
  "destructure b =
     (case b of
        None \<Rightarrow> Inl (TypeError ''Cannot destructure req.body as it is undefined.'')
      | Some JNull \<Rightarrow> Inl (TypeError ''Cannot destructure req.body as it is null.'')
      | Some v \<Rightarrow> Inr (member_of v ''name'', member_of v ''description'', member_of v ''price'',
                       member_of v ''category'', member_of v ''inStock''))"

text \<open>\<open>validateProduct\<close>: \<open>Inr ()\<close> is \<open>next()\<close>, \<open>Inl e\<close> is \<open>next(e)\<close> or a throw of \<open>e\<close>.\<close>

definition validateProduct :: "json option \<Rightarrow> err + unit" where
  "validateProduct b =
     (case destructure b of
        Inl e \<Rightarrow> Inl e
      | Inr (name', description', price', category', inStock') \<Rightarrow>
          if typeof name' \<noteq> T_string \<or>
             typeof description' \<noteq> T_string \<or>
             typeof price' \<noteq> T_number \<or>
             typeof category' \<noteq> T_string \<or>
             typeof inStock' \<noteq> T_boolean
          then Inl (ValidationError ''Invalid product data'')
          else Inr ())"

definition errorHandler :: "err \<Rightarrow> response" where
  "errorHandler e =
     Response (case err_status e of None \<Rightarrow> 500 | Some n \<Rightarrow> if n = 0 then 500 else n)
              (Json_error (if err_message e = [] then ''Internal Server Error'' else err_message e))"

text \<open>\<open>asyncHandler fn\<close> followed by the error handler: a handler that throws has not yet
  written to \<open>products\<close> nor to the response, so the array is the one it was given.\<close>

definition asyncHandler ::
  "product list \<Rightarrow> err + (response \<times> product list) \<Rightarrow> response \<times> product list" where
  "asyncHandler products r = (case r of Inl e \<Rightarrow> (errorHandler e, products) | Inr x \<Rightarrow> x)"

subsection \<open>Array operations\<close>

fun findIndex :: "('a \<Rightarrow> bool) \<Rightarrow> 'a list \<Rightarrow> nat option" where
  "findIndex P [] = None"
| "findIndex P (x # xs) = (if P x then Some 0 else map_option Suc (findIndex P xs))"

text \<open>\<open>xs.slice(start, end)\<close> for integers.\<close>

definition slice :: "'a list \<Rightarrow> int \<Rightarrow> int \<Rightarrow> 'a list" where
  "slice xs start end =
     (let len = int (length xs);
          k = (if start < 0 then max (len + start) 0 else min start len);
          final = (if end < 0 then max (len + end) 0 else min end len)
      in take (nat (final - k)) (drop (nat k) xs))"

text \<open>\<open>xs.splice(i, 1)\<close> for an index \<open>i\<close> that \<open>findIndex\<close> returned.\<close>

definition splice1 :: "'a list \<Rightarrow> nat \<Rightarrow> 'a list" where
  "splice1 xs i = take i xs @ drop (Suc i) xs"

text \<open>\<open>xs.filter(f)\<close> for a callback that may throw.\<close>

fun filterE :: "('a \<Rightarrow> err + bool) \<Rightarrow> 'a list \<Rightarrow> err + 'a list" where
  "filterE f [] = Inr []"
| "filterE f (x # xs) =
     (case f x of
        Inl e \<Rightarrow> Inl e
      | Inr b \<Rightarrow> (case filterE f xs of
                    Inl e \<Rightarrow> Inl e
                  | Inr ys \<Rightarrow> Inr (if b then x # ys else ys)))"

subsection \<open>Route handlers\<close>

text \<open>\<open>p.category.toLowerCase() === req.query.category.toLowerCase()\<close>.\<close>

definition category_matches :: "qval \<Rightarrow> product \<Rightarrow> err + bool" where
  "category_matches qc p =
     (case category p of
        Some (JStr c) \<Rightarrow>
          (case qc of
             QStr q \<Rightarrow> Inr (toLowerCase c = toLowerCase q)
           | _ \<Rightarrow> Inl (TypeError ''req.query.category.toLowerCase is not a function''))
      | _ \<Rightarrow> Inl (TypeError ''p.category.toLowerCase is not a function''))"

text \<open>GET /api/products\<close>

definition list_handler :: "product list \<Rightarrow> request \<Rightarrow> err + (response \<times> product list)" where
  "list_handler products req =
     (case (if truthy (query req ''category'')
            then filterE (category_matches (the (query req ''category''))) products
            else Inr products) of
        Inl e \<Rightarrow> Inl e
      | Inr filtered \<Rightarrow>
          (let page = or_default (parseInt (String_opt (query req ''page''))) 1;
               limit = or_default (parseInt (String_opt (query req ''limit''))) 10;
               startIndex = (page - 1) * limit;
               endIndex = page * limit;
               paginated = slice filtered startIndex endIndex
           in Inr (Response 200 (Json_envelope
                     \<lparr>page = page, limit = limit, total = length filtered, data = paginated\<rparr>),
                   products)))"

text \<open>GET /api/products/:id\<close>

definition get_handler :: "product list \<Rightarrow> string \<Rightarrow> err + (response \<times> product list)" where
  "get_handler products i =
     (case find (\<lambda>p. id_p p = i) products of
        None \<Rightarrow> Inl (NotFoundError ''Product not found'')
      | Some product \<Rightarrow> Inr (Response 200 (Json_product product), products))"

text \<open>POST /api/products, after \<open>validateProduct\<close>\<close>

definition create_handler ::
  "runtime \<Rightarrow> product list \<Rightarrow> json option \<Rightarrow> err + (response \<times> product list)" where
  "create_handler rt products b =
     (case destructure b of
        Inl e \<Rightarrow> Inl e
      | Inr (name', description', price', category', inStock') \<Rightarrow>
          (let newProduct = \<lparr>id_p = uuidv4 rt, name = name', description = description',
                              price = price', category = category', inStock = inStock'\<rparr>
           in Inr (Response 201 (Json_product newProduct), products @ [newProduct])))"

text \<open>PUT /api/products/:id, after \<open>validateProduct\<close>\<close>

definition update_handler ::
  "product list \<Rightarrow> string \<Rightarrow> json option \<Rightarrow> err + (response \<times> product list)" where
  "update_handler products i b =
     (case findIndex (\<lambda>p. id_p p = i) products of
        None \<Rightarrow> Inl (NotFoundError ''Product not found'')
      | Some productIndex \<Rightarrow>
          (case destructure b of
             Inl e \<Rightarrow> Inl e
           | Inr (name', description', price', category', inStock') \<Rightarrow>
               (let products' = products[productIndex :=
                                  \<lparr>id_p = i, name = name', description = description',
                                   price = price', category = category', inStock = inStock'\<rparr>]
                in Inr (Response 200 (Json_product (products' ! productIndex)), products'))))"

text \<open>DELETE /api/products/:id\<close>

definition delete_handler :: "product list \<Rightarrow> string \<Rightarrow> err + (response \<times> product list)" where
  "delete_handler products i =
     (case findIndex (\<lambda>p. id_p p = i) products of
        None \<Rightarrow> Inl (NotFoundError ''Product not found'')
      | Some productIndex \<Rightarrow> Inr (Response 204 Empty, splice1 products productIndex))"

text \<open>\<open>p.name.toLowerCase().includes(nameQuery.toLowerCase())\<close>\<close>

definition name_matches :: "qval \<Rightarrow> product \<Rightarrow> err + bool" where
  "name_matches nameQuery p =
     (case name p of
        Some (JStr n) \<Rightarrow>
          (case nameQuery of
             QStr q \<Rightarrow> Inr (includes_str (toLowerCase n) (toLowerCase q))
           | _ \<Rightarrow> Inl (TypeError ''nameQuery.toLowerCase is not a function''))
      | _ \<Rightarrow> Inl (TypeError ''p.name.toLowerCase is not a function''))"

text \<open>GET /api/products/search\<close>

definition search_handler :: "product list \<Rightarrow> request \<Rightarrow> err + (response \<times> product list)" where
  "search_handler products req =
     (let nameQuery = query req ''name''
      in if \<not> truthy nameQuery
         then Inr (Response 400 (Json_error ''Missing required query parameter: name''), products)
         else (case filterE (name_matches (the nameQuery)) products of
                 Inl e \<Rightarrow> Inl e
               | Inr matched \<Rightarrow> Inr (Response 200 (Json_products matched), products)))"

text \<open>
  GET /api/products/stats. The accumulator is a plain object: a key that it does not own
  is still found when every object inherits it. \<open>Object_prototype\<close> lists the inherited
  methods with the text the runtime prints for them; the inherited accessor \<open>__proto__\<close>
  reads as an object and ignores the assignment of a text. A category that is no string
  is turned into a key as the runtime turns any value into a string.
\<close>

definition Object_prototype :: "(string \<times> string) list" where
  "Object_prototype =
     [(''constructor'', ''function Object() { [native code] }''),
      (''hasOwnProperty'', ''function hasOwnProperty() { [native code] }''),
      (''isPrototypeOf'', ''function isPrototypeOf() { [native code] }''),
      (''propertyIsEnumerable'', ''function propertyIsEnumerable() { [native code] }''),
      (''toLocaleString'', ''function toLocaleString() { [native code] }''),
      (''toString'', ''function toString() { [native code] }''),
      (''valueOf'', ''function valueOf() { [native code] }''),
      (''__defineGetter__'', ''function __defineGetter__() { [native code] }''),
      (''__defineSetter__'', ''function __defineSetter__() { [native code] }''),
      (''__lookupGetter__'', ''function __lookupGetter__() { [native code] }''),
      (''__lookupSetter__'', ''function __lookupSetter__() { [native code] }'')]"

fun ToString :: "(real \<Rightarrow> string) \<Rightarrow> json \<Rightarrow> string" where
  "ToString num JNull = ''null''"
| "ToString num (JBool b) = (if b then ''true'' else ''false'')"
| "ToString num (JNum r) = num r"
| "ToString num (JStr s) = s"
| "ToString num (JArr xs) = join_comma (map (\<lambda>x. if x = JNull then [] else ToString num x) xs)"
| "ToString num (JObj kvs) = ''[object Object]''"

definition property_key :: "(real \<Rightarrow> string) \<Rightarrow> json option \<Rightarrow> string" where
  "property_key num v = (case v of None \<Rightarrow> ''undefined'' | Some j \<Rightarrow> ToString num j)"

text \<open>\<open>acc[k] = v\<close> on the members of \<open>acc\<close>, kept in the order of their creation.\<close>

fun assign :: "string \<Rightarrow> tally \<Rightarrow> (string \<times> tally) list \<Rightarrow> (string \<times> tally) list" where
  "assign k v [] = [(k, v)]"
| "assign k v ((k', v') # kvs) = (if k' = k then (k', v) # kvs else (k', v') # assign k v kvs)"

text \<open>\<open>acc[product.category] = (acc[product.category] || 0) + 1\<close>\<close>

definition tally_step ::
  "(real \<Rightarrow> string) \<Rightarrow> (string \<times> tally) list \<Rightarrow> product \<Rightarrow> (string \<times> tally) list" where
  "tally_step num acc product =
     (let k = property_key num (category product)
      in case map_of acc k of
           Some (Count n) \<Rightarrow> assign k (Count (n + 1)) acc
         | Some (Glued s) \<Rightarrow> assign k (if s = [] then Count 1 else Glued (s @ ''1'')) acc
         | None \<Rightarrow>
             if k = ''__proto__'' then acc
             else (case map_of Object_prototype k of
                     Some src \<Rightarrow> assign k (Glued (src @ ''1'')) acc
                   | None \<Rightarrow> assign k (Count 1) acc))"

definition stats_handler :: "runtime \<Rightarrow> product list \<Rightarrow> err + (response \<times> product list)" where
  "stats_handler rt products =
     (let stats = foldl (tally_step (Number_toString rt)) [] products
      in Inr (Response 200 (Json_stats stats), products))"

subsection \<open>Routing\<close>

text \<open>
  The application keeps the framework's defaults: a path pattern matches without regard
  to the case of letters, and with or without one slash at the end. The patterns of
  server.js are written in lower case.
\<close>

definition strip_slash :: "string list \<Rightarrow> string list" where
  "strip_slash p = (if p \<noteq> [] \<and> last p = [] then butlast p else p)"

definition lit :: "string \<Rightarrow> string \<Rightarrow> bool" where
  "lit l s = (toLowerCase s = l)"

text \<open>\<open>"/"\<close>\<close>

definition match_root :: "string list \<Rightarrow> bool" where
  "match_root p = (strip_slash p = [])"

text \<open>\<open>app.use("/api/products", ...)\<close>: the path starts with the two pieces.\<close>

definition under_products :: "string list \<Rightarrow> bool" where
  "under_products p =
     (case p of a # b # rest \<Rightarrow> lit ''api'' a \<and> lit ''products'' b | _ \<Rightarrow> False)"

text \<open>\<open>"/api/products"\<close>\<close>

definition match_collection :: "string list \<Rightarrow> bool" where
  "match_collection p =
     (case strip_slash p of [a, b] \<Rightarrow> lit ''api'' a \<and> lit ''products'' b | _ \<Rightarrow> False)"

text \<open>\<open>"/api/products/:id"\<close>: the value of \<open>req.params.id\<close> when the path matches.\<close>

definition match_item :: "string list \<Rightarrow> string option" where
  "match_item p =
     (case strip_slash p of
        [a, b, i] \<Rightarrow> if lit ''api'' a \<and> lit ''products'' b \<and> i \<noteq> [] then Some i else None
      | _ \<Rightarrow> None)"

text \<open>\<open>"/api/products/search"\<close> and \<open>"/api/products/stats"\<close>\<close>

definition match_fixed :: "string \<Rightarrow> string list \<Rightarrow> bool" where
  "match_fixed l p =
     (case strip_slash p of
        [a, b, c] \<Rightarrow> lit ''api'' a \<and> lit ''products'' b \<and> lit l c
      | _ \<Rightarrow> False)"

text \<open>\<open>app.get\<close> also serves HEAD. A response is what the handler hands to \<open>res.json\<close> or
  \<open>res.send\<close>; to a HEAD request the runtime then sends the head of it only.\<close>

definition is_get :: "http_method \<Rightarrow> bool" where
  "is_get m = (m = GET \<or> m = HEAD)"

text \<open>The routes in the order of their registration; the first whose method and path
  match takes the request, and none of the handlers passes it on.\<close>

definition routes :: "runtime \<Rightarrow> product list \<Rightarrow> request \<Rightarrow> json option \<Rightarrow> response \<times> product list" where
  "routes rt products req b =
     (let m = method_of req; p = path req
      in if is_get m \<and> match_collection p then
           asyncHandler products (list_handler products req)
         else if is_get m \<and> match_item p \<noteq> None then
           asyncHandler products (get_handler products (the (match_item p)))
         else if m = POST \<and> match_collection p then
           (case validateProduct b of
              Inl e \<Rightarrow> (errorHandler e, products)
            | Inr u \<Rightarrow> asyncHandler products (create_handler rt products b))
         else if m = PUT \<and> match_item p \<noteq> None then
           (case validateProduct b of
              Inl e \<Rightarrow> (errorHandler e, products)
            | Inr u \<Rightarrow> asyncHandler products (update_handler products (the (match_item p)) b))
         else if m = DELETE \<and> match_item p \<noteq> None then
           asyncHandler products (delete_handler products (the (match_item p)))
         else if is_get m \<and> match_fixed ''search'' p then
           asyncHandler products (search_handler products req)
         else if is_get m \<and> match_fixed ''stats'' p then
           asyncHandler products (stats_handler rt products)
         else (Unhandled, products))"

text \<open>
  The whole chain for one request, in the order of the \<open>app.use\<close> and \<open>app.get\<close> calls:
  \<open>bodyParser.json()\<close>, \<open>logger\<close>, the route \<open>"/"\<close>, \<open>authMiddleware\<close> on the products
  subtree, the routes, \<open>errorHandler\<close>. An error of the body parser skips everything up to
  \<open>errorHandler\<close>.
\<close>

definition app :: "runtime \<Rightarrow> product list \<Rightarrow> request \<Rightarrow> response \<times> product list" where
  "app rt products req =
     (case body req of
        Parse_failed e \<Rightarrow> (errorHandler e, products)
      | Parsed b \<Rightarrow>
          if is_get (method_of req) \<and> match_root (path req) then
            (Response 200 (Text ''Hello World''), products)
          else (case (if under_products (path req) then authMiddleware req else None) of
                  Some r \<Rightarrow> (r, products)
                | None \<Rightarrow> routes rt products req b))"

subsection \<open>Notions used by the properties\<close>

text \<open>The five business fields of a stored product have the types the validator asks for.\<close>

definition well_typed :: "product \<Rightarrow> bool" where
  "well_typed p =
     (typeof (name p) = T_string \<and> typeof (description p) = T_string \<and>
      typeof (price p) = T_number \<and> typeof (category p) = T_string \<and>
      typeof (inStock p) = T_boolean)"

definition store_inv :: "product list \<Rightarrow> bool" where
  "store_inv products = (distinct (map id_p products) \<and> list_all well_typed products)"

text \<open>The request carries the right key.\<close>

definition has_key :: "request \<Rightarrow> bool" where
  "has_key req = (headers req ''x-api-key'' = Some ''mysecretapikey'')"

text \<open>The stores the program passes through, from the empty array it starts with, when
  every id that \<open>uuidv4()\<close> hands out is new.\<close>

inductive reachable :: "product list \<Rightarrow> bool" where
  start: "reachable []"
| step: "reachable products \<Longrightarrow> uuidv4 rt \<notin> id_p ` set products \<Longrightarrow>
         reachable (snd (app rt products req))"




fun is_text :: "json option \<Rightarrow> bool" where
  "is_text (Some (JStr s)) = True"
| "is_text v = False"

fun is_number :: "json option \<Rightarrow> bool" where
  "is_number (Some (JNum r)) = True"
| "is_number v = False"

fun is_boolean :: "json option \<Rightarrow> bool" where
  "is_boolean (Some (JBool b)) = True"
| "is_boolean v = False"

definition supplies_five :: "json \<Rightarrow> bool" where
  "supplies_five v =
     (case v of
        JObj kvs \<Rightarrow>
          is_text (map_of (rev kvs) ''name'') \<and> is_text (map_of (rev kvs) ''description'') \<and>
          is_number (map_of (rev kvs) ''price'') \<and> is_text (map_of (rev kvs) ''category'') \<and>
          is_boolean (map_of (rev kvs) ''inStock'')
      | _ \<Rightarrow> False)"


text \<open>The invariant in the words of the specification, which also asks for a name that
  is not empty.\<close>

definition has_name :: "product \<Rightarrow> bool" where
  "has_name p = (case name p of Some (JStr n) \<Rightarrow> n \<noteq> [] | _ \<Rightarrow> False)"

definition store_inv_as_specified :: "product list \<Rightarrow> bool" where
  "store_inv_as_specified products = (store_inv products \<and> list_all has_name products)"

text \<open>A request that reaches the list handler: a GET on the collection, with the key, its
  body accepted by the parser.\<close>

definition is_list_request :: "request \<Rightarrow> bool" where
  "is_list_request req =
     (is_get (method_of req) \<and> match_collection (path req) \<and> has_key req \<and>
      (case body req of Parsed b \<Rightarrow> True | Parse_failed e \<Rightarrow> False))"

text \<open>A query parameter as the specification types it: absent, or a text.\<close>

definition text_or_absent :: "qval option \<Rightarrow> bool" where
  "text_or_absent v = (case v of None \<Rightarrow> True | Some (QStr s) \<Rightarrow> True | _ \<Rightarrow> False)"

text \<open>The category-filtered sequence: all products when the parameter is absent or
  empty, otherwise the products whose category equals it, letter case aside.\<close>

definition same_category :: "string \<Rightarrow> product \<Rightarrow> bool" where
  "same_category c p =
     (case category p of Some (JStr pc) \<Rightarrow> toLowerCase pc = toLowerCase c | _ \<Rightarrow> False)"

definition category_filtered :: "qval option \<Rightarrow> product list \<Rightarrow> product list" where
  "category_filtered qc products =
     (case qc of
        Some (QStr c) \<Rightarrow> if c = [] then products else filter (same_category c) products
      | _ \<Rightarrow> products)"

text \<open>The \<open>page\<close> and the \<open>limit\<close> that the list handler computes from a request.\<close>

definition parsed_page :: "request \<Rightarrow> int" where
  "parsed_page req = or_default (parseInt (String_opt (query req ''page''))) 1"

definition parsed_limit :: "request \<Rightarrow> int" where
  "parsed_limit req = or_default (parseInt (String_opt (query req ''limit''))) 10"

text \<open>The \<open>data\<close> of a response that is an envelope.\<close>

definition data_of :: "response \<Rightarrow> product list" where
  "data_of r = (case r of Response s (Json_envelope e) \<Rightarrow> data e | _ \<Rightarrow> [])"

text \<open>The name of a product contains a text as a substring, letter case aside.\<close>

definition name_contains :: "string \<Rightarrow> product \<Rightarrow> bool" where
  "name_contains q p =
     (case name p of Some (JStr n) \<Rightarrow> sublist (toLowerCase q) (toLowerCase n) | _ \<Rightarrow> False)"

text \<open>The number of products with exactly one category string, and the sum of the counts
  in a \<open>stats\<close> object.\<close>

definition count_category :: "string \<Rightarrow> product list \<Rightarrow> nat" where
  "count_category c products = length (filter (\<lambda>p. category p = Some (JStr c)) products)"

definition counted :: "tally \<Rightarrow> nat" where
  "counted t = (case t of Count n \<Rightarrow> n | Glued s \<Rightarrow> 0)"

fun sum_counts :: "(string \<times> tally) list \<Rightarrow> nat" where
  "sum_counts [] = 0"
| "sum_counts ((k, v) # kvs) = counted v + sum_counts kvs"

text \<open>A key that every plain object inherits, and a product whose category is a string
  other than these.\<close>

definition inherited :: "string \<Rightarrow> bool" where
  "inherited k = (k = ''__proto__'' \<or> k \<in> set (map fst Object_prototype))"

definition ordinary :: "product \<Rightarrow> bool" where
  "ordinary p = (case category p of Some (JStr c) \<Rightarrow> \<not> inherited c | _ \<Rightarrow> False)"

subsection \<open>Example data\<close>

text \<open>Requests, bodies, products and stores on which the properties are run. The pen is
  the one of the specification's scenario.\<close>

definition no_query :: "string \<rightharpoonup> qval" where
  "no_query = Map.empty"

definition no_headers :: "string \<rightharpoonup> string" where
  "no_headers = Map.empty"

definition key_headers :: "string \<rightharpoonup> string" where
  "key_headers = [''x-api-key'' \<mapsto> ''mysecretapikey'']"

definition example_runtime :: runtime where
  "example_runtime =
     \<lparr>uuidv4 = ''1b9d6bcd-bbfd-4b2d-9b5d-ab8dfbbd4bed'', Number_toString = (\<lambda>r. ''0'')\<rparr>"

definition syntax_error :: err where
  "syntax_error = \<lparr>err_name = ''SyntaxError'', err_status = Some 400,
                    err_message = ''Unexpected end of JSON input''\<rparr>"


definition pen_with_id :: json where
  "pen_with_id = JObj [(''id'', JStr ''X''), (''name'', JStr ''Pen''),
               (''description'', JStr ''Black ink''), (''price'', JNum 1.75),
               (''category'', JStr ''Stationery''), (''inStock'', JBool False)]"

definition nameless_pen :: json where
  "nameless_pen = JObj [(''name'', JStr []), (''description'', JStr ''Blue ink''),
               (''price'', JNum 1.5), (''category'', JStr ''Stationery''),
               (''inStock'', JBool True)]"

definition red_mug :: product where
  "red_mug = \<lparr>id_p = ''9c4f7c1e-0d3a-4a53-8d5e-2f1f0c6a7b11'', name = Some (JStr ''Red Mug''),
               description = Some (JStr ''A mug''), price = Some (JNum 4),
               category = Some (JStr ''Kitchen''), inStock = Some (JBool True)\<rparr>"

definition black_pen :: product where
  "black_pen = \<lparr>id_p = ''9c4f7c1e-0d3a-4a53-8d5e-2f1f0c6a7b11'', name = Some (JStr ''Pen''),
                 description = Some (JStr ''Black ink''), price = Some (JNum 1.75),
                 category = Some (JStr ''Stationery''), inStock = Some (JBool False)\<rparr>"

definition kettle :: product where
  "kettle = \<lparr>id_p = ''0e6b2a57-5f0c-4c1b-9a44-7d1c2b9e4f02'', name = Some (JStr ''Kettle''),
              description = Some (JStr ''Boils water''), price = Some (JNum 25),
              category = Some (JStr ''kitchen''), inStock = Some (JBool True)\<rparr>"

definition stapler :: product where
  "stapler = \<lparr>id_p = ''5a0a3f0b-8f3e-4b5e-a3a1-6d2f4c8e9b03'', name = Some (JStr ''Stapler''),
               description = Some (JStr ''Staples paper''), price = Some (JNum 7.5),
               category = Some (JStr ''Stationery''), inStock = Some (JBool False)\<rparr>"

definition ladle :: product where
  "ladle = \<lparr>id_p = ''c2d8e4a1-3b6f-4e0d-8c7a-1f5b9d3e6a04'', name = Some (JStr ''Ladle''),
             description = Some (JStr ''Serves soup''), price = Some (JNum 3),
             category = Some (JStr ''KITCHEN''), inStock = Some (JBool True)\<rparr>"

definition kitchen_store :: "product list" where
  "kitchen_store = [red_mug, kettle, stapler, ladle]"

definition odd_store :: "product list" where
  "odd_store = [red_mug\<lparr>category := Some (JStr ''constructor'')\<rparr>,
                kettle\<lparr>category := Some (JStr ''__proto__'')\<rparr>]"

definition mug_path :: "string list" where
  "mug_path = [''api'', ''products'', ''9c4f7c1e-0d3a-4a53-8d5e-2f1f0c6a7b11'']"

definition put_mug :: request where
  "put_mug = \<lparr>method_of = PUT, path = mug_path, query = no_query, headers = key_headers,
               body = Parsed (Some pen_with_id)\<rparr>"

definition get_mug :: request where
  "get_mug = \<lparr>method_of = GET, path = mug_path, query = no_query, headers = key_headers,
               body = Parsed None\<rparr>"

definition delete_mug :: request where
  "delete_mug = \<lparr>method_of = DELETE, path = mug_path, query = no_query, headers = key_headers,
                  body = Parsed None\<rparr>"

definition kitchen_page :: "nat \<Rightarrow> request" where
  "kitchen_page k =
     \<lparr>method_of = GET, path = [''api'', ''products''],
      query = [''category'' \<mapsto> QStr ''kitchen'', ''limit'' \<mapsto> QStr ''2'',
               ''page'' \<mapsto> QStr (if k = 0 then ''1'' else ''2'')],
      headers = key_headers, body = Parsed None\<rparr>"

definition limit_zero :: request where
  "limit_zero =
     \<lparr>method_of = GET, path = [''api'', ''products''],
      query = [''limit'' \<mapsto> QStr ''0''],
      headers = key_headers, body = Parsed None\<rparr>"

definition page_negative :: request where
  "page_negative =
     \<lparr>method_of = GET, path = [''api'', ''products''],
      query = [''page'' \<mapsto> QStr ''-1''],
      headers = key_headers, body = Parsed None\<rparr>"

definition search_red :: request where
  "search_red =
     \<lparr>method_of = GET, path = [''api'', ''products'', ''search''],
      query = [''name'' \<mapsto> QStr ''red''], headers = key_headers, body = Parsed None\<rparr>"

definition search_nothing :: request where
  "search_nothing =
     \<lparr>method_of = GET, path = [''api'', ''products'', ''search''],
      query = no_query, headers = key_headers, body = Parsed None\<rparr>"

definition get_stats :: request where
  "get_stats =
     \<lparr>method_of = GET, path = [''api'', ''products'', ''stats''],
      query = no_query, headers = key_headers, body = Parsed None\<rparr>"

definition twice_category :: request where
  "twice_category =
     \<lparr>method_of = GET, path = [''api'', ''products''],
      query = [''category'' \<mapsto> QArr [QStr ''kitchen'', QStr ''stationery'']],
      headers = key_headers, body = Parsed None\<rparr>"


definition put_no_body :: request where
  "put_no_body = \<lparr>method_of = PUT, path = mug_path, query = no_query, headers = key_headers,
                   body = Parsed None\<rparr>"

section \<open>Properties\<close>

subsection \<open>The key gate\<close>

lemma authMiddleware_None_iff: "authMiddleware req = None \<longleftrightarrow> has_key req"
  by (auto simp: authMiddleware_def has_key_def Let_def split: option.splits)

lemma authMiddleware_reject:
  "\<not> has_key req \<Longrightarrow> authMiddleware req = Some (Response 401 (Json_error ''Unauthorized: Invalid or missing API key''))"
  by (auto simp: authMiddleware_def has_key_def Let_def split: option.splits)

lemma strip_slash_cases: "strip_slash p = [] \<longleftrightarrow> p = [] \<or> p = [[]]"
  by (cases p rule: rev_cases) (auto simp: strip_slash_def)

lemma under_products_not_root: "under_products p \<Longrightarrow> \<not> match_root p"
  by (auto simp: under_products_def match_root_def strip_slash_cases split: list.splits)

lemma strip_slash_prefix2:
  "strip_slash p = a # b # rest \<Longrightarrow> \<exists>rest'. p = a # b # rest'"
  by (cases p rule: rev_cases) (auto simp: strip_slash_def split: if_splits)

lemma match_collection_under: "match_collection p \<Longrightarrow> under_products p"
  by (auto simp: match_collection_def under_products_def split: list.splits dest!: strip_slash_prefix2)

lemma match_item_under: "match_item p = Some i \<Longrightarrow> under_products p"
  by (auto simp: match_item_def under_products_def split: list.splits if_splits dest!: strip_slash_prefix2)

text \<open>
  Claim C3, as the code has it. A request on the products subtree that does not carry the
  right key changes nothing in \<open>products\<close>, whatever its method, its route and its body.
  When the body parser accepted the request, the answer is 401 with the message
  \<open>Unauthorized: Invalid or missing API key\<close>, and no route handler runs. The body parser
  is installed before the gate: when it rejects the body, the gate is skipped and the
  error handler answers with the parser's error.
\<close>

theorem auth_gate_rejects:
  assumes "under_products (path req)" and "\<not> has_key req"
  shows "app rt products req =
           (case body req of
              Parse_failed e \<Rightarrow> (errorHandler e, products)
            | Parsed b \<Rightarrow> (Response 401 (Json_error ''Unauthorized: Invalid or missing API key''), products))"
  using assms
  by (simp add: app_def under_products_not_root authMiddleware_reject split: parsed.splits)

text \<open>
  Claim C3 as stated fails: a POST on \<open>/api/products\<close> with no key and a body that the
  parser rejects is answered 400 by the error handler, not 401 by the gate.
\<close>

theorem auth_gate_counterexample:
  "under_products [''api'', ''products''] \<and>
   \<not> has_key \<lparr>method_of = POST, path = [''api'', ''products''], query = no_query,
              headers = no_headers, body = Parse_failed syntax_error\<rparr> \<and>
   app example_runtime [red_mug]
     \<lparr>method_of = POST, path = [''api'', ''products''], query = no_query,
      headers = no_headers, body = Parse_failed syntax_error\<rparr> =
   (Response 400 (Json_error ''Unexpected end of JSON input''), [red_mug])"
  by code_simp

text \<open>
  The gate at work: a DELETE of an existing product without a key.
\<close>

theorem auth_gate_rejects_witness:
  "app example_runtime [red_mug]
     \<lparr>method_of = DELETE, path = [''api'', ''products'', id_p red_mug], query = no_query,
      headers = no_headers, body = Parsed None\<rparr> =
   (Response 401 (Json_error ''Unauthorized: Invalid or missing API key''), [red_mug])"
proof -
  have u: "under_products (path \<lparr>method_of = DELETE, path = [''api'', ''products'', id_p red_mug],
      query = no_query, headers = no_headers, body = Parsed None\<rparr>)"
    by code_simp
  have k: "\<not> has_key \<lparr>method_of = DELETE, path = [''api'', ''products'', id_p red_mug],
      query = no_query, headers = no_headers, body = Parsed None\<rparr>"
    by code_simp
  show ?thesis
    using auth_gate_rejects[OF u k, of example_runtime "[red_mug]"] by simp
qed

subsection \<open>The validator\<close>

lemma typeof_string_iff: "typeof x = T_string \<longleftrightarrow> is_text x"
  by (cases x rule: typeof.cases) auto
lemma typeof_number_iff: "typeof x = T_number \<longleftrightarrow> is_number x"
  by (cases x rule: typeof.cases) auto
lemma typeof_boolean_iff: "typeof x = T_boolean \<longleftrightarrow> is_boolean x"
  by (cases x rule: typeof.cases) auto

lemma destructure_Some:
  "v \<noteq> JNull \<Longrightarrow> destructure (Some v) =
     Inr (member_of v ''name'', member_of v ''description'', member_of v ''price'',
          member_of v ''category'', member_of v ''inStock'')"
  by (cases v) (simp_all add: destructure_def)

lemma supplies_five_iff:
  "supplies_five v \<longleftrightarrow>
     typeof (member_of v ''name'') = T_string \<and> typeof (member_of v ''description'') = T_string \<and>
     typeof (member_of v ''price'') = T_number \<and> typeof (member_of v ''category'') = T_string \<and>
     typeof (member_of v ''inStock'') = T_boolean"
  by (cases v) (simp_all add: supplies_five_def typeof_string_iff typeof_number_iff typeof_boolean_iff)

lemma validateProduct_Some:
  "v \<noteq> JNull \<Longrightarrow> validateProduct (Some v) =
     (if supplies_five v then Inr () else Inl (ValidationError ''Invalid product data''))"
  by (auto simp: validateProduct_def destructure_Some supplies_five_iff)

lemma validateProduct_nullish:
  "validateProduct None = Inl (TypeError ''Cannot destructure req.body as it is undefined.'')"
  "validateProduct (Some JNull) = Inl (TypeError ''Cannot destructure req.body as it is null.'')"
  by (simp_all add: validateProduct_def destructure_def)

lemma validateProduct_ok_iff:
  "validateProduct b = Inr () \<longleftrightarrow> (\<exists>v. b = Some v \<and> v \<noteq> JNull \<and> supplies_five v)"
proof (cases b)
  case None
  then show ?thesis by (simp add: validateProduct_nullish)
next
  case (Some v)
  then show ?thesis
    by (cases "v = JNull") (auto simp: validateProduct_nullish validateProduct_Some)
qed







subsection \<open>Looking products up\<close>

lemma findIndex_None_iff: "findIndex P xs = None \<longleftrightarrow> (\<forall>x \<in> set xs. \<not> P x)"
  by (induction xs) auto

lemma findIndex_Some:
  "findIndex P xs = Some k \<Longrightarrow> k < length xs \<and> P (xs ! k) \<and> (\<forall>j < k. \<not> P (xs ! j))"
proof (induction xs arbitrary: k)
  case Nil
  then show ?case by simp
next
  case (Cons x xs)
  show ?case
  proof (cases "P x")
    case True
    with Cons.prems show ?thesis by simp
  next
    case False
    with Cons.prems obtain k' where k': "findIndex P xs = Some k'" "k = Suc k'"
      by auto
    from Cons.IH[OF k'(1)] False k'(2) show ?thesis
      by (auto simp: less_Suc_eq_0_disj)
  qed
qed

lemma find_first:
  "k < length xs \<Longrightarrow> P (xs ! k) \<Longrightarrow> \<forall>j < k. \<not> P (xs ! j) \<Longrightarrow> find P xs = Some (xs ! k)"
proof (induction xs arbitrary: k)
  case Nil
  then show ?case by simp
next
  case (Cons x xs)
  show ?case
  proof (cases k)
    case 0
    with Cons.prems show ?thesis by simp
  next
    case (Suc k')
    with Cons.prems have "\<not> P x" by auto
    moreover have "find P xs = Some (xs ! k')"
      using Cons.prems Suc by (intro Cons.IH) auto
    ultimately show ?thesis using Suc by simp
  qed
qed

subsection \<open>Which route takes a request\<close>

lemma errorHandler_NotFound [simp]:
  "errorHandler (NotFoundError ''Product not found'') = Response 404 (Json_error ''Product not found'')"
  by (simp add: errorHandler_def NotFoundError_def)

lemma errorHandler_Validation [simp]:
  "errorHandler (ValidationError ''Invalid product data'') = Response 400 (Json_error ''Invalid product data'')"
  by (simp add: errorHandler_def ValidationError_def)

lemma errorHandler_TypeError:
  "m \<noteq> [] \<Longrightarrow> errorHandler (TypeError m) = Response 500 (Json_error m)"
  by (simp add: errorHandler_def TypeError_def)

lemma is_get_simps [simp]:
  "is_get GET" "is_get HEAD" "\<not> is_get POST" "\<not> is_get PUT" "\<not> is_get DELETE" "\<not> is_get OTHER"
  by (simp_all add: is_get_def)

text \<open>What each kind of request reduces to once the body is parsed and the key is right.\<close>

lemma app_routes:
  "body req = Parsed b \<Longrightarrow> under_products (path req) \<Longrightarrow> has_key req \<Longrightarrow>
   app rt products req = routes rt products req b"
  by (simp add: app_def under_products_not_root authMiddleware_None_iff[THEN iffD2])

lemma match_item_not_collection: "match_item p = Some i \<Longrightarrow> \<not> match_collection p"
  by (auto simp: match_item_def match_collection_def split: list.splits)

lemma routes_put:
  "method_of req = PUT \<Longrightarrow> match_item (path req) = Some i \<Longrightarrow>
   routes rt products req b =
     (case validateProduct b of
        Inl e \<Rightarrow> (errorHandler e, products)
      | Inr u \<Rightarrow> asyncHandler products (update_handler products i b))"
  by (simp add: routes_def split: sum.splits)

lemma routes_get:
  "is_get (method_of req) \<Longrightarrow> match_item (path req) = Some i \<Longrightarrow>
   routes rt products req b = asyncHandler products (get_handler products i)"
  by (simp add: routes_def match_item_not_collection)

lemma routes_delete:
  "method_of req = DELETE \<Longrightarrow> match_item (path req) = Some i \<Longrightarrow>
   routes rt products req b = asyncHandler products (delete_handler products i)"
  by (simp add: routes_def)

lemma routes_list:
  "is_get (method_of req) \<Longrightarrow> match_collection (path req) \<Longrightarrow>
   routes rt products req b = asyncHandler products (list_handler products req)"
  by (simp add: routes_def)

subsection \<open>Update: validation comes before the lookup\<close>

lemma update_handler_absent:
  "i \<notin> id_p ` set products \<Longrightarrow>
   update_handler products i b = Inl (NotFoundError ''Product not found'')"
proof -
  assume "i \<notin> id_p ` set products"
  then have "findIndex (\<lambda>p. id_p p = i) products = None"
    by (auto simp: findIndex_None_iff)
  then show ?thesis by (simp add: update_handler_def)
qed

lemma update_handler_slot:
  assumes "i \<in> id_p ` set products" and "v \<noteq> JNull"
  shows "\<exists>k < length products.
           id_p (products ! k) = i \<and> (\<forall>j < k. id_p (products ! j) \<noteq> i) \<and>
           update_handler products i (Some v) =
             Inr (Response 200 (Json_product
                    \<lparr>id_p = i, name = member_of v ''name'', description = member_of v ''description'',
                     price = member_of v ''price'', category = member_of v ''category'',
                     inStock = member_of v ''inStock''\<rparr>),
                  products[k := \<lparr>id_p = i, name = member_of v ''name'',
                     description = member_of v ''description'',
                     price = member_of v ''price'', category = member_of v ''category'',
                     inStock = member_of v ''inStock''\<rparr>])"
proof -
  from assms(1) obtain k where k: "findIndex (\<lambda>p. id_p p = i) products = Some k"
    by (cases "findIndex (\<lambda>p. id_p p = i) products") (auto simp: findIndex_None_iff)
  from findIndex_Some[OF k] have kl: "k < length products" and ki: "id_p (products ! k) = i"
    and kf: "\<forall>j < k. id_p (products ! j) \<noteq> i"
    by auto
  have "update_handler products i (Some v) =
             Inr (Response 200 (Json_product
                    \<lparr>id_p = i, name = member_of v ''name'', description = member_of v ''description'',
                     price = member_of v ''price'', category = member_of v ''category'',
                     inStock = member_of v ''inStock''\<rparr>),
                  products[k := \<lparr>id_p = i, name = member_of v ''name'',
                     description = member_of v ''description'',
                     price = member_of v ''price'', category = member_of v ''category'',
                     inStock = member_of v ''inStock''\<rparr>])"
    using k kl assms(2) by (simp add: update_handler_def destructure_Some)
  with kl ki kf show ?thesis by blast
qed




text \<open>
  A PUT that reaches \<open>validateProduct\<close> with \<open>req.body\<close> left \<open>undefined\<close>: the
  destructuring throws before any check, and the answer is 500.
\<close>

lemma put_without_body:
  "\<exists>m. app example_runtime [red_mug] put_no_body = (Response 500 (Json_error m), [red_mug])"
proof -
  have "app example_runtime [red_mug] put_no_body =
     (Response 500 (Json_error ''Cannot destructure req.body as it is undefined.''), [red_mug])"
    by code_simp
  then show ?thesis by blast
qed

subsection \<open>The invariant of the store\<close>

lemma asyncHandler_Inl [simp]: "asyncHandler products (Inl e) = (errorHandler e, products)"
  by (simp add: asyncHandler_def)

lemma asyncHandler_Inr [simp]: "asyncHandler products (Inr x) = x"
  by (simp add: asyncHandler_def)

lemma list_handler_store: "snd (asyncHandler products (list_handler products req)) = products"
  by (simp add: list_handler_def Let_def split: sum.splits)

lemma get_handler_store: "snd (asyncHandler products (get_handler products i)) = products"
  by (simp add: get_handler_def split: option.splits)

lemma search_handler_store: "snd (asyncHandler products (search_handler products req)) = products"
  by (simp add: search_handler_def Let_def split: sum.splits)

lemma stats_handler_store: "snd (asyncHandler products (stats_handler rt products)) = products"
  by (simp add: stats_handler_def Let_def)

lemma well_typed_of_body:
  "supplies_five v \<Longrightarrow>
   well_typed \<lparr>id_p = i, name = member_of v ''name'', description = member_of v ''description'',
               price = member_of v ''price'', category = member_of v ''category'',
               inStock = member_of v ''inStock''\<rparr>"
  by (simp add: well_typed_def supplies_five_iff)

lemma create_handler_Some:
  "v \<noteq> JNull \<Longrightarrow>
   create_handler rt products (Some v) =
     Inr (Response 201 (Json_product
            \<lparr>id_p = uuidv4 rt, name = member_of v ''name'', description = member_of v ''description'',
             price = member_of v ''price'', category = member_of v ''category'',
             inStock = member_of v ''inStock''\<rparr>),
          products @ [\<lparr>id_p = uuidv4 rt, name = member_of v ''name'',
             description = member_of v ''description'',
             price = member_of v ''price'', category = member_of v ''category'',
             inStock = member_of v ''inStock''\<rparr>])"
  by (simp add: create_handler_def destructure_Some Let_def)

lemma create_store_inv:
  assumes "store_inv products" and "uuidv4 rt \<notin> id_p ` set products"
    and "v \<noteq> JNull" and "supplies_five v"
  shows "store_inv (snd (asyncHandler products (create_handler rt products (Some v))))"
  using assms by (simp add: create_handler_Some store_inv_def well_typed_of_body)

lemma map_id_update:
  "k < length products \<Longrightarrow> id_p (products ! k) = id_p q \<Longrightarrow>
   map id_p (products[k := q]) = map id_p products"
  by (simp add: map_update list_update_same_conv)

lemma list_all_update:
  "list_all P xs \<Longrightarrow> P x \<Longrightarrow> list_all P (xs[k := x])"
  by (auto simp: list_all_iff dest: set_update_subset_insert[THEN subsetD])

lemma update_store_inv:
  assumes "store_inv products" and "v \<noteq> JNull" and "supplies_five v"
  shows "store_inv (snd (asyncHandler products (update_handler products i (Some v))))"
proof (cases "i \<in> id_p ` set products")
  case True
  from update_handler_slot[OF True assms(2)] obtain k where
    k: "k < length products" "id_p (products ! k) = i" and
    u: "update_handler products i (Some v) =
               Inr (Response 200 (Json_product
                      \<lparr>id_p = i, name = member_of v ''name'', description = member_of v ''description'',
                       price = member_of v ''price'', category = member_of v ''category'',
                       inStock = member_of v ''inStock''\<rparr>),
                    products[k := \<lparr>id_p = i, name = member_of v ''name'',
                       description = member_of v ''description'',
                       price = member_of v ''price'', category = member_of v ''category'',
                       inStock = member_of v ''inStock''\<rparr>])"
    by blast
  show ?thesis
    using assms(1) k well_typed_of_body[OF assms(3), of i]
    by (simp add: u store_inv_def map_id_update list_all_update)
next
  case False
  with assms(1) show ?thesis by (simp add: update_handler_absent)
qed

lemma splice1_store_inv:
  "store_inv products \<Longrightarrow> store_inv (splice1 products k)"
proof -
  assume a: "store_inv products"
  have "products = take k products @ drop k products" by simp
  then have d: "distinct (map id_p (take k products) @ map id_p (drop k products))"
    using a by (metis store_inv_def map_append)
  have t: "drop (Suc k) products = tl (drop k products)"
    by (simp add: drop_Suc tl_drop)
  have "distinct (map id_p (take k products) @ map id_p (drop (Suc k) products))"
    using d unfolding t by (cases "drop k products") auto
  moreover have "list_all well_typed (take k products @ drop (Suc k) products)"
    using a by (auto simp: store_inv_def list_all_iff dest: in_set_takeD in_set_dropD)
  ultimately show ?thesis by (simp add: store_inv_def splice1_def)
qed

lemma delete_store_inv:
  "store_inv products \<Longrightarrow> store_inv (snd (asyncHandler products (delete_handler products i)))"
  by (auto simp: delete_handler_def splice1_store_inv split: option.splits)

lemma routes_store_inv:
  assumes "store_inv products" and "uuidv4 rt \<notin> id_p ` set products"
  shows "store_inv (snd (routes rt products req b))"
proof -
  have post: "store_inv (snd (case validateProduct b of
              Inl e \<Rightarrow> (errorHandler e, products)
            | Inr u \<Rightarrow> asyncHandler products (create_handler rt products b)))"
  proof (cases "validateProduct b")
    case (Inl e)
    with assms(1) show ?thesis by simp
  next
    case (Inr u)
    then obtain v where "b = Some v" "v \<noteq> JNull" "supplies_five v"
      using validateProduct_ok_iff[of b] by auto
    with Inr assms show ?thesis by (simp add: create_store_inv)
  qed
  have put: "store_inv (snd (case validateProduct b of
              Inl e \<Rightarrow> (errorHandler e, products)
            | Inr u \<Rightarrow> asyncHandler products (update_handler products i b)))" for i
  proof (cases "validateProduct b")
    case (Inl e)
    with assms(1) show ?thesis by simp
  next
    case (Inr u)
    then obtain v where "b = Some v" "v \<noteq> JNull" "supplies_five v"
      using validateProduct_ok_iff[of b] by auto
    with Inr assms show ?thesis by (simp add: update_store_inv)
  qed
  show ?thesis
    unfolding routes_def Let_def
    using assms(1) post put
    by (simp add: list_handler_store get_handler_store search_handler_store
        stats_handler_store delete_store_inv)
qed

lemma set_splice1: "set (splice1 xs k) \<subseteq> set xs"
  by (auto simp: splice1_def dest: in_set_takeD in_set_dropD)

lemma routes_new_products:
  assumes "p \<in> set (snd (routes rt products req b))"
  shows "p \<in> set products \<or> validateProduct b = Inr ()"
proof (cases "validateProduct b")
  case (Inl e)
  have "set (snd (routes rt products req b)) \<subseteq> set products"
    unfolding routes_def Let_def using Inl set_splice1[of products]
    by (auto simp: list_handler_store get_handler_store search_handler_store
        stats_handler_store delete_handler_def split: option.splits)
  with assms show ?thesis by blast
next
  case (Inr u)
  then show ?thesis by simp
qed

lemma app_store_inv:
  assumes "store_inv products" and "uuidv4 rt \<notin> id_p ` set products"
  shows "store_inv (snd (app rt products req))"
  using assms
  by (simp add: app_def routes_store_inv split: parsed.splits option.splits)

lemma app_new_products:
  assumes "p \<in> set (snd (app rt products req))"
  shows "p \<in> set products \<or> (\<exists>b. body req = Parsed b \<and> validateProduct b = Inr ())"
proof (cases "body req")
  case (Parse_failed e)
  with assms show ?thesis by (simp add: app_def)
next
  case (Parsed b)
  show ?thesis
  proof (cases "app rt products req = routes rt products req b")
    case True
    with assms Parsed routes_new_products[of p rt products req b] show ?thesis by simp
  next
    case False
    then have "snd (app rt products req) = products"
      using Parsed by (auto simp: app_def split: option.splits if_splits)
    with assms show ?thesis by simp
  qed
qed

text \<open>The stores that the program reaches from the empty one satisfy the invariant.\<close>

lemma reachable_store_inv: "reachable products \<Longrightarrow> store_inv products"
proof (induction rule: reachable.induct)
  case start
  show ?case by (simp add: store_inv_def)
next
  case (step products rt req)
  then show ?case by (intro app_store_inv)
qed

text \<open>
  Claim C4, as the code has it. Every request keeps the invariant of the store: the ids
  are pairwise distinct and the five business fields of every product have the types
  the validator asks for, provided the id that \<open>uuidv4()\<close> hands out is not yet in the
  store. Every product of the new store either was in the old one or was written from
  a body that passed \<open>validateProduct\<close>. The invariant says nothing on the name being
  non-empty: no check in the program looks at it.
\<close>

theorem store_invariant_preserved:
  assumes "store_inv products" and "uuidv4 rt \<notin> id_p ` set products"
  shows "store_inv (snd (app rt products req)) \<and>
         (\<forall>p \<in> set (snd (app rt products req)).
            p \<in> set products \<or> (\<exists>b. body req = Parsed b \<and> validateProduct b = Inr ()))"
  using app_store_inv[OF assms] app_new_products by blast

text \<open>
  Claim C4 as stated fails: with the name required to be non-empty, the invariant holds
  of the empty store and is broken by one POST whose body has the name \<open>""\<close>.
\<close>

theorem store_invariant_counterexample:
  "store_inv_as_specified [] \<and>
   uuidv4 example_runtime \<notin> id_p ` set [] \<and>
   \<not> store_inv_as_specified
       (snd (app example_runtime []
          \<lparr>method_of = POST, path = [''api'', ''products''], query = no_query,
           headers = key_headers, body = Parsed (Some nameless_pen)\<rparr>))"
  by code_simp

text \<open>
  The invariant across a POST into a store of one product.
\<close>

theorem store_invariant_preserved_witness:
  "store_inv [red_mug] \<and>
   store_inv (snd (app example_runtime [red_mug]
          \<lparr>method_of = POST, path = [''api'', ''products''], query = no_query,
           headers = key_headers, body = Parsed (Some nameless_pen)\<rparr>)) \<and>
   length (snd (app example_runtime [red_mug]
          \<lparr>method_of = POST, path = [''api'', ''products''], query = no_query,
           headers = key_headers, body = Parsed (Some nameless_pen)\<rparr>)) = 2"
proof -
  have a: "store_inv [red_mug]" by code_simp
  have b: "uuidv4 example_runtime \<notin> id_p ` set [red_mug]" by code_simp
  have c: "length (snd (app example_runtime [red_mug]
          \<lparr>method_of = POST, path = [''api'', ''products''], query = no_query,
           headers = key_headers, body = Parsed (Some nameless_pen)\<rparr>)) = 2"
    by code_simp
  from store_invariant_preserved[OF a b] a c show ?thesis by blast
qed

subsection \<open>Update, then get; delete, then get\<close>

lemma get_handler_found:
  "k < length products \<Longrightarrow> id_p (products ! k) = i \<Longrightarrow> \<forall>j < k. id_p (products ! j) \<noteq> i \<Longrightarrow>
   get_handler products i = Inr (Response 200 (Json_product (products ! k)), products)"
  using find_first[of k products "\<lambda>p. id_p p = i"] by (simp add: get_handler_def)

lemma get_handler_absent:
  "i \<notin> id_p ` set products \<Longrightarrow> get_handler products i = Inl (NotFoundError ''Product not found'')"
proof -
  assume "i \<notin> id_p ` set products"
  then have "find (\<lambda>p. id_p p = i) products = None"
    by (auto simp: find_None_iff)
  then show ?thesis by (simp add: get_handler_def)
qed

text \<open>
  Claim C8. After a PUT with a valid body on the id of an existing product, a GET on the
  same id returns the record made of the path id and of the five business fields of the
  body, as the PUT itself did; whatever else the body carries, an \<open>id\<close> included, is not
  read.
\<close>

theorem update_then_get:
  assumes present: "i \<in> id_p ` set products"
    and valid: "validateProduct (Some v) = Inr ()"
    and put: "method_of put = PUT" "match_item (path put) = Some i" "has_key put"
      "body put = Parsed (Some v)"
    and get: "method_of get = GET" "match_item (path get) = Some i" "has_key get"
      "body get = Parsed b"
  shows "fst (app rt products put) =
           Response 200 (Json_product
             \<lparr>id_p = i, name = member_of v ''name'', description = member_of v ''description'',
              price = member_of v ''price'', category = member_of v ''category'',
              inStock = member_of v ''inStock''\<rparr>) \<and>
         app rt' (snd (app rt products put)) get =
           (Response 200 (Json_product
             \<lparr>id_p = i, name = member_of v ''name'', description = member_of v ''description'',
              price = member_of v ''price'', category = member_of v ''category'',
              inStock = member_of v ''inStock''\<rparr>),
            snd (app rt products put))"
proof -
  let ?P = "\<lparr>id_p = i, name = member_of v ''name'', description = member_of v ''description'',
              price = member_of v ''price'', category = member_of v ''category'',
              inStock = member_of v ''inStock''\<rparr>"
  from valid have nn: "v \<noteq> JNull"
    using validateProduct_ok_iff[of "Some v"] by simp
  from update_handler_slot[OF present nn] obtain k where
    k: "k < length products" "id_p (products ! k) = i" "\<forall>j < k. id_p (products ! j) \<noteq> i"
    and u: "update_handler products i (Some v) = Inr (Response 200 (Json_product ?P), products[k := ?P])"
    by blast
  have a: "app rt products put = (Response 200 (Json_product ?P), products[k := ?P])"
    using put valid u by (simp add: app_routes match_item_under routes_put)
  have g: "get_handler (products[k := ?P]) i =
             Inr (Response 200 (Json_product ((products[k := ?P]) ! k)), products[k := ?P])"
    using k by (intro get_handler_found) auto
  have b: "app rt' (products[k := ?P]) get = (Response 200 (Json_product ?P), products[k := ?P])"
    using get g k(1) by (simp add: app_routes match_item_under routes_get)
  from a b show ?thesis by simp
qed

text \<open>
  The red mug replaced by the black pen of the specification, whose body carries the id
  \<open>X\<close>: the stored record keeps the id of the mug.
\<close>

theorem update_then_get_witness:
  "app example_runtime [red_mug] put_mug = (Response 200 (Json_product black_pen), [black_pen]) \<and>
   app example_runtime (snd (app example_runtime [red_mug] put_mug)) get_mug =
     (Response 200 (Json_product black_pen), [black_pen])"
proof -
  have present: "id_p red_mug \<in> id_p ` set [red_mug]" by simp
  have valid: "validateProduct (Some pen_with_id) = Inr ()" by code_simp
  have put: "method_of put_mug = PUT" "match_item (path put_mug) = Some (id_p red_mug)"
    "has_key put_mug" "body put_mug = Parsed (Some pen_with_id)"
    by code_simp+
  have get: "method_of get_mug = GET" "match_item (path get_mug) = Some (id_p red_mug)"
    "has_key get_mug" "body get_mug = Parsed None"
    by code_simp+
  have p: "\<lparr>id_p = id_p red_mug, name = member_of pen_with_id ''name'',
            description = member_of pen_with_id ''description'',
            price = member_of pen_with_id ''price'', category = member_of pen_with_id ''category'',
            inStock = member_of pen_with_id ''inStock''\<rparr> = black_pen"
    by code_simp
  have s: "snd (app example_runtime [red_mug] put_mug) = [black_pen]"
    by code_simp
  from update_then_get[OF present valid put get, of example_runtime example_runtime]
  show ?thesis unfolding p s by (metis prod.collapse s)
qed

lemma filter_other_id:
  "y \<notin> set (map f xs) \<Longrightarrow> filter (\<lambda>x. f x \<noteq> y) xs = xs"
  by (induction xs) auto

lemma filter_distinct_slot:
  assumes "distinct (map f xs)" and "k < length xs"
  shows "filter (\<lambda>x. f x \<noteq> f (xs ! k)) xs = take k xs @ drop (Suc k) xs"
proof -
  have xs: "xs = take k xs @ xs ! k # drop (Suc k) xs"
    using assms(2) by (simp add: id_take_nth_drop)
  have d: "distinct (map f (take k xs) @ f (xs ! k) # map f (drop (Suc k) xs))"
    using assms(1) by (subst (asm) xs) simp
  have l: "filter (\<lambda>x. f x \<noteq> f (xs ! k)) (take k xs) = take k xs"
    using d by (intro filter_other_id) simp
  have r: "filter (\<lambda>x. f x \<noteq> f (xs ! k)) (drop (Suc k) xs) = drop (Suc k) xs"
    using d by (intro filter_other_id) simp
  have "filter (\<lambda>x. f x \<noteq> f (xs ! k)) (take k xs @ xs ! k # drop (Suc k) xs) =
          take k xs @ drop (Suc k) xs"
    by (simp add: l r)
  with xs show ?thesis by simp
qed

lemma delete_handler_present:
  assumes "distinct (map id_p products)" and "i \<in> id_p ` set products"
  shows "delete_handler products i = Inr (Response 204 Empty, filter (\<lambda>p. id_p p \<noteq> i) products)"
proof -
  from assms(2) obtain k where k: "findIndex (\<lambda>p. id_p p = i) products = Some k"
    by (cases "findIndex (\<lambda>p. id_p p = i) products") (auto simp: findIndex_None_iff)
  from findIndex_Some[OF k] have kl: "k < length products" and ki: "id_p (products ! k) = i"
    by auto
  from filter_distinct_slot[OF assms(1) kl] ki
  have "filter (\<lambda>p. id_p p \<noteq> i) products = splice1 products k"
    by (simp add: splice1_def)
  with k show ?thesis by (simp add: delete_handler_def)
qed

lemma delete_handler_absent:
  "i \<notin> id_p ` set products \<Longrightarrow> delete_handler products i = Inl (NotFoundError ''Product not found'')"
proof -
  assume "i \<notin> id_p ` set products"
  then have "findIndex (\<lambda>p. id_p p = i) products = None"
    by (auto simp: findIndex_None_iff)
  then show ?thesis by (simp add: delete_handler_def)
qed

lemma length_filter_distinct:
  assumes "distinct (map f xs)" and "i \<in> f ` set xs"
  shows "Suc (length (filter (\<lambda>x. f x \<noteq> i) xs)) = length xs"
  using assms
proof (induction xs)
  case Nil
  then show ?case by simp
next
  case (Cons a xs)
  show ?case
  proof (cases "f a = i")
    case True
    with Cons.prems(1) have "i \<notin> set (map f xs)" by simp
    then have "filter (\<lambda>x. f x \<noteq> i) xs = xs" by (rule filter_other_id)
    with True show ?thesis by simp
  next
    case False
    with Cons.prems have "distinct (map f xs)" and "i \<in> f ` set xs" by auto
    from Cons.IH[OF this] False show ?thesis by simp
  qed
qed

text \<open>
  Claim C9. In a store with distinct ids, a DELETE on a present id is answered 204 with an
  empty body and removes the one product with that id and nothing else, so that a GET on
  the same id is then answered 404 with \<open>Product not found\<close>; a DELETE on an absent id is
  answered 404 and leaves the store as it was.
\<close>

theorem delete_then_get:
  assumes ids: "distinct (map id_p products)"
    and del: "method_of del = DELETE" "match_item (path del) = Some i" "has_key del"
      "body del = Parsed b"
    and get: "method_of get = GET" "match_item (path get) = Some i" "has_key get"
      "body get = Parsed b'"
  shows "if i \<in> id_p ` set products
         then app rt products del = (Response 204 Empty, filter (\<lambda>p. id_p p \<noteq> i) products) \<and>
              Suc (length (filter (\<lambda>p. id_p p \<noteq> i) products)) = length products \<and>
              app rt' (filter (\<lambda>p. id_p p \<noteq> i) products) get =
                (Response 404 (Json_error ''Product not found''), filter (\<lambda>p. id_p p \<noteq> i) products)
         else app rt products del = (Response 404 (Json_error ''Product not found''), products)"
proof (cases "i \<in> id_p ` set products")
  case True
  have a: "app rt products del = (Response 204 Empty, filter (\<lambda>p. id_p p \<noteq> i) products)"
    using del delete_handler_present[OF ids True]
    by (simp add: app_routes match_item_under routes_delete)
  have n: "i \<notin> id_p ` set (filter (\<lambda>p. id_p p \<noteq> i) products)"
    by auto
  have g: "app rt' (filter (\<lambda>p. id_p p \<noteq> i) products) get =
                (Response 404 (Json_error ''Product not found''), filter (\<lambda>p. id_p p \<noteq> i) products)"
    using get get_handler_absent[OF n]
    by (simp add: app_routes match_item_under routes_get)
  from True a g length_filter_distinct[OF ids True] show ?thesis by simp
next
  case False
  then show ?thesis
    using del delete_handler_absent[OF False]
    by (simp add: app_routes match_item_under routes_delete)
qed

text \<open>
  Deleting the red mug from a store that holds only it, then asking for it, then deleting
  it again.
\<close>

theorem delete_then_get_witness:
  "app example_runtime [red_mug] delete_mug = (Response 204 Empty, []) \<and>
   app example_runtime [] get_mug = (Response 404 (Json_error ''Product not found''), []) \<and>
   app example_runtime [] delete_mug = (Response 404 (Json_error ''Product not found''), [])"
proof -
  have ids: "distinct (map id_p [red_mug])" "distinct (map id_p [])" by simp_all
  have del: "method_of delete_mug = DELETE" "match_item (path delete_mug) = Some (id_p red_mug)"
    "has_key delete_mug" "body delete_mug = Parsed None"
    by code_simp+
  have get: "method_of get_mug = GET" "match_item (path get_mug) = Some (id_p red_mug)"
    "has_key get_mug" "body get_mug = Parsed None"
    by code_simp+
  from delete_then_get[OF ids(1) del get, of example_runtime example_runtime]
  have 1: "app example_runtime [red_mug] delete_mug = (Response 204 Empty, [])"
    and 2: "app example_runtime [] get_mug = (Response 404 (Json_error ''Product not found''), [])"
    by simp_all
  from delete_then_get[OF ids(2) del get, of example_runtime example_runtime]
  have 3: "app example_runtime [] delete_mug = (Response 404 (Json_error ''Product not found''), [])"
    by simp
  from 1 2 3 show ?thesis by simp
qed

subsection \<open>Listing: filter and pages\<close>

lemma filterE_total:
  "\<forall>x \<in> set xs. f x = Inr (g x) \<Longrightarrow> filterE f xs = Inr (filter g xs)"
  by (induction xs) auto

lemma category_matches_typed:
  "well_typed p \<Longrightarrow> category_matches (QStr c) p = Inr (same_category c p)"
  by (cases "category p" rule: typeof.cases)
     (auto simp: well_typed_def category_matches_def same_category_def)

lemma list_handler_envelope:
  assumes "list_all well_typed products" and "text_or_absent (query req ''category'')"
  shows "list_handler products req =
           Inr (Response 200 (Json_envelope
                  \<lparr>page = parsed_page req, limit = parsed_limit req,
                   total = length (category_filtered (query req ''category'') products),
                   data = slice (category_filtered (query req ''category'') products)
                            ((parsed_page req - 1) * parsed_limit req)
                            (parsed_page req * parsed_limit req)\<rparr>),
                products)"
proof (cases "query req ''category''")
  case None
  then show ?thesis
    by (simp add: list_handler_def category_filtered_def parsed_page_def parsed_limit_def Let_def)
next
  case (Some q)
  with assms(2) obtain c where q: "q = QStr c"
    by (cases q) (auto simp: text_or_absent_def)
  show ?thesis
  proof (cases "c = []")
    case True
    with Some q show ?thesis
      by (simp add: list_handler_def category_filtered_def parsed_page_def parsed_limit_def Let_def)
  next
    case False
    have "filterE (category_matches (QStr c)) products = Inr (filter (same_category c) products)"
      using assms(1) by (intro filterE_total) (simp add: list_all_iff category_matches_typed)
    with Some q False show ?thesis
      by (simp add: list_handler_def category_filtered_def parsed_page_def parsed_limit_def Let_def)
  qed
qed

lemma app_list:
  "is_list_request req \<Longrightarrow>
   app rt products req = asyncHandler products (list_handler products req)"
  by (auto simp: is_list_request_def app_routes match_collection_under routes_list
      split: parsed.splits)

lemma slice_window:
  assumes "0 \<le> s" and "0 < l"
  shows "slice xs s (s + l) = take (nat l) (drop (nat s) xs)"
proof (cases "s < int (length xs)")
  case True
  have "nat (min (s + l) (int (length xs)) - s) = min (nat l) (length xs - nat s)"
    using assms True by (simp add: min_def) linarith
  then show ?thesis
    using assms True by (simp add: slice_def min_def Let_def)
next
  case False
  then have "drop (nat s) xs = []" using assms by simp
  then show ?thesis
    using assms False by (simp add: slice_def min_def Let_def)
qed

lemma slice_page:
  assumes "0 < pg" and "0 < lmt"
  shows "slice xs ((pg - 1) * lmt) (pg * lmt) = take (nat lmt) (drop (nat ((pg - 1) * lmt)) xs)"
proof -
  have s0: "0 \<le> (pg - 1) * lmt" using assms by simp
  have e: "pg * lmt = (pg - 1) * lmt + lmt" by (simp add: algebra_simps)
  show ?thesis unfolding e using s0 assms(2) by (rule slice_window)
qed

lemma concat_pages:
  "concat (map (\<lambda>k. take m (drop (k * m) xs)) [0..<n]) = take (n * m) xs"
proof (induction n)
  case 0
  then show ?case by simp
next
  case (Suc n)
  have "take (n * m + m) xs = take (n * m) xs @ take m (drop (n * m) xs)"
    by (rule take_add)
  with Suc show ?case by (simp add: add.commute)
qed

lemma parseInt_undefined: "parseInt ''undefined'' = None"
  by code_simp

lemma app_list_envelope:
  assumes "store_inv products" and "is_list_request req"
    and "text_or_absent (query req ''category'')"
  shows "app rt products req =
           (Response 200 (Json_envelope
              \<lparr>page = parsed_page req, limit = parsed_limit req,
               total = length (category_filtered (query req ''category'') products),
               data = slice (category_filtered (query req ''category'') products)
                        ((parsed_page req - 1) * parsed_limit req)
                        (parsed_page req * parsed_limit req)\<rparr>),
            products)"
  using assms by (simp add: app_list list_handler_envelope store_inv_def)

lemma data_of_envelope [simp]: "data_of (Response s (Json_envelope e)) = data e"
  by (simp add: data_of_def)

lemma parsed_defaults:
  "query req ''page'' = None \<Longrightarrow> parsed_page req = 1"
  "parseInt (String_opt (query req ''page'')) = None \<Longrightarrow> parsed_page req = 1"
  "query req ''limit'' = None \<Longrightarrow> parsed_limit req = 10"
  "parseInt (String_opt (query req ''limit'')) = None \<Longrightarrow> parsed_limit req = 10"
  by (simp_all add: parsed_page_def parsed_limit_def String_opt_def parseInt_undefined or_default_def)

text \<open>
  Claim C7. Take a store that satisfies the invariant and a category parameter \<open>qc\<close>
  that is absent or a text. A list request with that category whose page and limit are
  positive is answered by the envelope that carries them, with \<open>total\<close> the length of the
  category-filtered sequence and \<open>data\<close> the part of that sequence from position
  \<open>(page - 1) * limit\<close>, \<open>limit\<close> products long unless the sequence ends before; the
  order is the one of the store. For list requests \<open>r 0, ..., r (n - 1)\<close> with that category
  and one positive limit, \<open>r k\<close> asking for page \<open>k + 1\<close>, and \<open>n\<close> pages enough to reach the
  end, the data of the answers, concatenated in order, are the filtered sequence. A
  parameter that is missing or that \<open>parseInt\<close> cannot read gives page 1 and limit 10.
\<close>

theorem list_pagination:
  assumes inv: "store_inv products" and cat: "text_or_absent qc"
  shows "(is_list_request req \<and> query req ''category'' = qc \<and>
          0 < parsed_page req \<and> 0 < parsed_limit req \<longrightarrow>
            app rt products req =
              (Response 200 (Json_envelope
                 \<lparr>page = parsed_page req, limit = parsed_limit req,
                  total = length (category_filtered qc products),
                  data = take (nat (parsed_limit req))
                           (drop (nat ((parsed_page req - 1) * parsed_limit req))
                              (category_filtered qc products))\<rparr>),
               products) \<and>
            int (length (data_of (fst (app rt products req)))) \<le> parsed_limit req) \<and>
         (0 < lmt \<and>
          (\<forall>k < n. is_list_request (r k) \<and> query (r k) ''category'' = qc \<and>
                    parsed_page (r k) = int k + 1 \<and> parsed_limit (r k) = lmt) \<and>
          length (category_filtered qc products) \<le> n * nat lmt \<longrightarrow>
            concat (map (\<lambda>k. data_of (fst (app rt products (r k)))) [0..<n]) =
              category_filtered qc products) \<and>
         (query req ''page'' = None \<or> parseInt (String_opt (query req ''page'')) = None
            \<longrightarrow> parsed_page req = 1) \<and>
         (query req ''limit'' = None \<or> parseInt (String_opt (query req ''limit'')) = None
            \<longrightarrow> parsed_limit req = 10)"
proof -
  let ?F = "category_filtered qc products"
  have one: "app rt products q =
              (Response 200 (Json_envelope
                 \<lparr>page = parsed_page q, limit = parsed_limit q, total = length ?F,
                  data = take (nat (parsed_limit q))
                           (drop (nat ((parsed_page q - 1) * parsed_limit q)) ?F)\<rparr>),
               products)"
    if q: "is_list_request q" "query q ''category'' = qc" "0 < parsed_page q" "0 < parsed_limit q"
    for q
  proof -
    have "slice ?F ((parsed_page q - 1) * parsed_limit q) (parsed_page q * parsed_limit q) =
            take (nat (parsed_limit q)) (drop (nat ((parsed_page q - 1) * parsed_limit q)) ?F)"
      using q(3,4) by (rule slice_page)
    with app_list_envelope[OF inv q(1), of rt] cat q(2) show ?thesis
      by simp
  qed
  have len: "int (length (data_of (fst (app rt products q)))) \<le> parsed_limit q"
    if q: "is_list_request q" "query q ''category'' = qc" "0 < parsed_page q" "0 < parsed_limit q"
    for q
    using one[OF q] q(4) by simp
  have pages: "concat (map (\<lambda>k. data_of (fst (app rt products (r k)))) [0..<n]) = ?F"
    if pos: "0 < lmt"
      and reqs: "\<forall>k < n. is_list_request (r k) \<and> query (r k) ''category'' = qc \<and>
                    parsed_page (r k) = int k + 1 \<and> parsed_limit (r k) = lmt"
      and all: "length ?F \<le> n * nat lmt"
  proof -
    have page: "data_of (fst (app rt products (r k))) = take (nat lmt) (drop (k * nat lmt) ?F)"
      if "k < n" for k
    proof -
      from reqs that have rk: "is_list_request (r k)" "query (r k) ''category'' = qc"
        "parsed_page (r k) = int k + 1" "parsed_limit (r k) = lmt"
        by auto
      have "nat ((int k + 1 - 1) * lmt) = k * nat lmt"
        by (simp add: nat_mult_distrib)
      with one[OF rk(1,2)] rk(3,4) pos show ?thesis by simp
    qed
    have m: "map (\<lambda>k. data_of (fst (app rt products (r k)))) [0..<n] =
          map (\<lambda>k. take (nat lmt) (drop (k * nat lmt) ?F)) [0..<n]"
      by (rule map_cong) (simp_all add: page)
    have "concat (map (\<lambda>k. data_of (fst (app rt products (r k)))) [0..<n]) =
          take (n * nat lmt) ?F"
      unfolding m by (rule concat_pages)
    with all show ?thesis by simp
  qed
  from one len pages parsed_defaults[of req] show ?thesis
    by blast
qed

text \<open>
  Three kitchen products out of four, two per page, the category written in another case.
\<close>

theorem list_pagination_witness:
  "app example_runtime kitchen_store (kitchen_page 0) =
     (Response 200 (Json_envelope \<lparr>page = 1, limit = 2, total = 3, data = [red_mug, kettle]\<rparr>),
      kitchen_store) \<and>
   app example_runtime kitchen_store (kitchen_page 1) =
     (Response 200 (Json_envelope \<lparr>page = 2, limit = 2, total = 3, data = [ladle]\<rparr>),
      kitchen_store) \<and>
   data_of (fst (app example_runtime kitchen_store (kitchen_page 0))) @
   data_of (fst (app example_runtime kitchen_store (kitchen_page 1))) = [red_mug, kettle, ladle]"
proof -
  have inv: "store_inv kitchen_store" by code_simp
  have cat: "text_or_absent (Some (QStr ''kitchen''))" by code_simp
  have r0: "is_list_request (kitchen_page 0) \<and>
            query (kitchen_page 0) ''category'' = Some (QStr ''kitchen'') \<and>
            parsed_page (kitchen_page 0) = int 0 + 1 \<and> parsed_limit (kitchen_page 0) = 2"
    by code_simp
  have r1: "is_list_request (kitchen_page 1) \<and>
            query (kitchen_page 1) ''category'' = Some (QStr ''kitchen'') \<and>
            parsed_page (kitchen_page 1) = int 1 + 1 \<and> parsed_limit (kitchen_page 1) = 2"
    by code_simp
  have reqs: "\<forall>k < 2. is_list_request (kitchen_page k) \<and>
                 query (kitchen_page k) ''category'' = Some (QStr ''kitchen'') \<and>
                 parsed_page (kitchen_page k) = int k + 1 \<and> parsed_limit (kitchen_page k) = 2"
    using r0 r1 by (auto simp: less_2_cases_iff)
  have f: "category_filtered (Some (QStr ''kitchen'')) kitchen_store = [red_mug, kettle, ladle]"
    by code_simp
  have u: "[0..<2] = [0, 1]" by (simp add: upt_rec)
  note P0 = list_pagination[OF inv cat, of "kitchen_page 0" example_runtime 2 2 kitchen_page]
  note P1 = list_pagination[OF inv cat, of "kitchen_page 1" example_runtime 2 2 kitchen_page]
  from P0 r0 have p0: "app example_runtime kitchen_store (kitchen_page 0) =
     (Response 200 (Json_envelope \<lparr>page = 1, limit = 2, total = 3, data = [red_mug, kettle]\<rparr>),
      kitchen_store)"
    unfolding f by simp
  from P1 r1 have p1: "app example_runtime kitchen_store (kitchen_page 1) =
     (Response 200 (Json_envelope \<lparr>page = 2, limit = 2, total = 3, data = [ladle]\<rparr>),
      kitchen_store)"
    unfolding f by simp
  from P0 reqs have "concat (map (\<lambda>k. data_of (fst (app example_runtime kitchen_store (kitchen_page k)))) [0..<2]) =
      [red_mug, kettle, ladle]"
    unfolding f by simp
  then have c: "data_of (fst (app example_runtime kitchen_store (kitchen_page 0))) @
   data_of (fst (app example_runtime kitchen_store (kitchen_page 1))) = [red_mug, kettle, ladle]"
    unfolding u by simp
  from p0 p1 c show ?thesis by blast
qed

lemma list_handler_query:
  assumes "query req' ''category'' = query req ''category''"
    and "parsed_page req' = parsed_page req" and "parsed_limit req' = parsed_limit req"
  shows "list_handler products req' = list_handler products req"
  using assms by (simp add: list_handler_def parsed_page_def parsed_limit_def Let_def split: sum.splits)

text \<open>
  Claim C10. On a list request, a \<open>limit\<close> or \<open>page\<close> parameter that \<open>parseInt\<close> reads as
  \<open>0\<close> gives the default (10, 1), and the answer is the one to the same request without
  that parameter; a parameter read as a negative integer is kept, and the envelope
  carries it and the slice computed from it. With a limit read as \<open>0\<close>, a positive page
  that starts inside the filtered sequence, ten products to the page, is not empty.
\<close>

theorem zero_is_default:
  assumes req: "is_list_request req"
  shows "(parseInt (String_opt (query req ''limit'')) = Some 0 \<longrightarrow>
            parsed_limit req = 10 \<and>
            app rt products req = app rt products (req\<lparr>query := (query req)(''limit'' := None)\<rparr>)) \<and>
         (parseInt (String_opt (query req ''page'')) = Some 0 \<longrightarrow>
            parsed_page req = 1 \<and>
            app rt products req = app rt products (req\<lparr>query := (query req)(''page'' := None)\<rparr>)) \<and>
         (\<forall>m < 0. (parseInt (String_opt (query req ''limit'')) = Some m \<longrightarrow> parsed_limit req = m) \<and>
                   (parseInt (String_opt (query req ''page'')) = Some m \<longrightarrow> parsed_page req = m)) \<and>
         (store_inv products \<and> text_or_absent (query req ''category'') \<longrightarrow>
            app rt products req =
              (Response 200 (Json_envelope
                 \<lparr>page = parsed_page req, limit = parsed_limit req,
                  total = length (category_filtered (query req ''category'') products),
                  data = slice (category_filtered (query req ''category'') products)
                           ((parsed_page req - 1) * parsed_limit req)
                           (parsed_page req * parsed_limit req)\<rparr>),
               products)) \<and>
         (store_inv products \<and> text_or_absent (query req ''category'') \<and>
          parseInt (String_opt (query req ''limit'')) = Some 0 \<and> 0 < parsed_page req \<and>
          (parsed_page req - 1) * 10 < int (length (category_filtered (query req ''category'') products))
            \<longrightarrow> data_of (fst (app rt products req)) \<noteq> [])"
proof -
  let ?nl = "req\<lparr>query := (query req)(''limit'' := None)\<rparr>"
  let ?np = "req\<lparr>query := (query req)(''page'' := None)\<rparr>"
  let ?F = "category_filtered (query req ''category'') products"
  have l: "is_list_request ?nl" and p: "is_list_request ?np"
    using req by (simp_all add: is_list_request_def has_key_def)
  have zl: "parsed_limit req = 10 \<and> app rt products req = app rt products ?nl"
    if "parseInt (String_opt (query req ''limit'')) = Some 0"
  proof -
    have "list_handler products ?nl = list_handler products req"
      using that
      by (intro list_handler_query)
         (simp_all add: parsed_page_def parsed_limit_def String_opt_def parseInt_undefined
            or_default_def)
    with that show ?thesis
      by (simp add: app_list[OF req] app_list[OF l] parsed_limit_def or_default_def)
  qed
  have zp: "parsed_page req = 1 \<and> app rt products req = app rt products ?np"
    if "parseInt (String_opt (query req ''page'')) = Some 0"
  proof -
    have "list_handler products ?np = list_handler products req"
      using that
      by (intro list_handler_query)
         (simp_all add: parsed_page_def parsed_limit_def String_opt_def parseInt_undefined
            or_default_def)
    with that show ?thesis
      by (simp add: app_list[OF req] app_list[OF p] parsed_page_def or_default_def)
  qed
  have neg: "\<forall>m < 0. (parseInt (String_opt (query req ''limit'')) = Some m \<longrightarrow> parsed_limit req = m) \<and>
                   (parseInt (String_opt (query req ''page'')) = Some m \<longrightarrow> parsed_page req = m)"
    by (simp add: parsed_page_def parsed_limit_def or_default_def)
  have env: "app rt products req =
              (Response 200 (Json_envelope
                 \<lparr>page = parsed_page req, limit = parsed_limit req, total = length ?F,
                  data = slice ?F ((parsed_page req - 1) * parsed_limit req)
                           (parsed_page req * parsed_limit req)\<rparr>),
               products)"
    if "store_inv products" and "text_or_absent (query req ''category'')"
    using app_list_envelope[OF that(1) req that(2)] .
  have full: "data_of (fst (app rt products req)) \<noteq> []"
    if inv: "store_inv products" and cat: "text_or_absent (query req ''category'')"
      and z: "parseInt (String_opt (query req ''limit'')) = Some 0"
      and pg: "0 < parsed_page req" and lt: "(parsed_page req - 1) * 10 < int (length ?F)"
  proof -
    from zl[OF z] have ten: "parsed_limit req = 10" by simp
    have "slice ?F ((parsed_page req - 1) * 10) (parsed_page req * 10) =
            take (nat 10) (drop (nat ((parsed_page req - 1) * 10)) ?F)"
      using pg by (intro slice_page) simp_all
    moreover have "drop (nat ((parsed_page req - 1) * 10)) ?F \<noteq> []"
      using lt pg by simp
    ultimately have "slice ?F ((parsed_page req - 1) * 10) (parsed_page req * 10) \<noteq> []"
      by simp
    with env[OF inv cat] ten show ?thesis by simp
  qed
  from zl zp neg env full show ?thesis by blast
qed

text \<open>
  \<open>?limit=0\<close> on the store of four: limit 10, and all four products on page 1.
  \<open>?page=-1\<close>: page -1, and the slice from -20 to -10 is empty.
\<close>

theorem zero_is_default_witness:
  "parseInt (String_opt (query limit_zero ''limit'')) = Some 0 \<and>
   app example_runtime kitchen_store limit_zero =
     (Response 200 (Json_envelope \<lparr>page = 1, limit = 10, total = 4, data = kitchen_store\<rparr>),
      kitchen_store) \<and>
   parseInt (String_opt (query page_negative ''page'')) = Some (- 1) \<and>
   app example_runtime kitchen_store page_negative =
     (Response 200 (Json_envelope \<lparr>page = - 1, limit = 10, total = 4, data = []\<rparr>),
      kitchen_store)"
proof -
  have inv: "store_inv kitchen_store" by code_simp
  have t: "length kitchen_store = 4" by code_simp
  have l: "is_list_request limit_zero" by code_simp
  have z: "parseInt (String_opt (query limit_zero ''limit'')) = Some 0" by code_simp
  have lp: "parsed_page limit_zero = 1" by code_simp
  have lc: "text_or_absent (query limit_zero ''category'')" by code_simp
  have lf: "category_filtered (query limit_zero ''category'') kitchen_store = kitchen_store"
    by code_simp
  have ls: "slice kitchen_store ((1 - 1) * 10) (1 * 10) = kitchen_store" by code_simp
  note L = zero_is_default[OF l, of example_runtime kitchen_store]
  from L z have ll: "parsed_limit limit_zero = 10" by blast
  from L inv lc have "app example_runtime kitchen_store limit_zero =
              (Response 200 (Json_envelope
                 \<lparr>page = parsed_page limit_zero, limit = parsed_limit limit_zero,
                  total = length (category_filtered (query limit_zero ''category'') kitchen_store),
                  data = slice (category_filtered (query limit_zero ''category'') kitchen_store)
                           ((parsed_page limit_zero - 1) * parsed_limit limit_zero)
                           (parsed_page limit_zero * parsed_limit limit_zero)\<rparr>),
               kitchen_store)"
    by blast
  then have r1: "app example_runtime kitchen_store limit_zero =
     (Response 200 (Json_envelope \<lparr>page = 1, limit = 10, total = 4, data = kitchen_store\<rparr>),
      kitchen_store)"
    unfolding ll lp lf t using ls by simp
  have n: "is_list_request page_negative" by code_simp
  have m: "parseInt (String_opt (query page_negative ''page'')) = Some (- 1)" by code_simp
  have nl: "parsed_limit page_negative = 10" by code_simp
  have nc: "text_or_absent (query page_negative ''category'')" by code_simp
  have nf: "category_filtered (query page_negative ''category'') kitchen_store = kitchen_store"
    by code_simp
  have ns: "slice kitchen_store ((- 1 - 1) * 10) (- 1 * 10) = []" by code_simp
  note N = zero_is_default[OF n, of example_runtime kitchen_store]
  from N m have np: "parsed_page page_negative = - 1" by force
  from N inv nc have "app example_runtime kitchen_store page_negative =
              (Response 200 (Json_envelope
                 \<lparr>page = parsed_page page_negative, limit = parsed_limit page_negative,
                  total = length (category_filtered (query page_negative ''category'') kitchen_store),
                  data = slice (category_filtered (query page_negative ''category'') kitchen_store)
                           ((parsed_page page_negative - 1) * parsed_limit page_negative)
                           (parsed_page page_negative * parsed_limit page_negative)\<rparr>),
               kitchen_store)"
    by blast
  then have r2: "app example_runtime kitchen_store page_negative =
     (Response 200 (Json_envelope \<lparr>page = - 1, limit = 10, total = 4, data = []\<rparr>),
      kitchen_store)"
    unfolding nl np nf t using ns by simp
  from z r1 m r2 show ?thesis by blast
qed

text \<open>
  Outside the contract of the list operation: a category given twice arrives as an array,
  the callback of \<open>filter\<close> throws on the first product, and the answer is 500. On the
  empty store the callback is never called and the answer is the empty envelope.
\<close>

lemma list_category_given_twice:
  "(\<exists>m. app example_runtime kitchen_store twice_category =
          (Response 500 (Json_error m), kitchen_store)) \<and>
   app example_runtime [] twice_category =
     (Response 200 (Json_envelope \<lparr>page = 1, limit = 10, total = 0, data = []\<rparr>), [])"
proof -
  have "app example_runtime kitchen_store twice_category =
     (Response 500 (Json_error ''req.query.category.toLowerCase is not a function''),
      kitchen_store)"
    by code_simp
  moreover have "app example_runtime [] twice_category =
     (Response 200 (Json_envelope \<lparr>page = 1, limit = 10, total = 0, data = []\<rparr>), [])"
    by code_simp
  ultimately show ?thesis by blast
qed

subsection \<open>The routes that are never reached\<close>

lemma includes_str_sublist: "includes_str s q \<longleftrightarrow> sublist q s"
  by (induction s) (simp_all add: sublist_Cons_right)

lemma match_fixed_item:
  "match_fixed l p \<Longrightarrow> l \<noteq> [] \<Longrightarrow> \<exists>i. match_item p = Some i \<and> toLowerCase i = l"
  by (auto simp: match_fixed_def match_item_def lit_def toLowerCase_def split: list.splits)

text \<open>
  A GET whose path matches \<open>/api/products/search\<close> or \<open>/api/products/stats\<close> also matches
  \<open>/api/products/:id\<close>, which is registered first: the request is served by the lookup of
  a product whose id is the last piece of the path, and the two later routes never run.
\<close>

lemma fixed_routes_shadowed:
  assumes "is_get (method_of req)" and "match_fixed l (path req)" and "l \<noteq> []"
    and "has_key req" and "body req = Parsed b"
  shows "\<exists>i. match_item (path req) = Some i \<and> toLowerCase i = l \<and>
             app rt products req = asyncHandler products (get_handler products i)"
proof -
  from match_fixed_item[OF assms(2,3)] obtain i where
    i: "match_item (path req) = Some i" "toLowerCase i = l"
    by blast
  have "app rt products req = asyncHandler products (get_handler products i)"
    using assms(1,4,5) i(1) by (simp add: app_routes match_item_under routes_get)
  with i show ?thesis by blast
qed

lemma name_matches_typed:
  "well_typed p \<Longrightarrow> name_matches (QStr q) p = Inr (name_contains q p)"
  by (cases "name p" rule: typeof.cases)
     (auto simp: well_typed_def name_matches_def name_contains_def includes_str_sublist)

text \<open>
  What the two shadowed handlers compute. \<open>search_handler\<close> answers 400 when the name is
  missing or empty, and otherwise returns the products whose name contains the query,
  letter case aside. \<open>stats_handler\<close> counts the products of each category string, as
  long as no category is the name of a property that every object inherits.
\<close>

lemma search_handler_missing:
  "query req ''name'' = None \<or> query req ''name'' = Some (QStr []) \<Longrightarrow>
   search_handler products req =
     Inr (Response 400 (Json_error ''Missing required query parameter: name''), products)"
  by (auto simp: search_handler_def)

lemma search_handler_matches:
  assumes "list_all well_typed products" and "query req ''name'' = Some (QStr q)" and "q \<noteq> []"
  shows "search_handler products req =
           Inr (Response 200 (Json_products (filter (name_contains q) products)), products)"
proof -
  have "filterE (name_matches (QStr q)) products = Inr (filter (name_contains q) products)"
    using assms(1) by (intro filterE_total) (simp add: list_all_iff name_matches_typed)
  with assms(2,3) show ?thesis by (simp add: search_handler_def)
qed

text \<open>
  Claim C1 fails on the code. \<open>GET /api/products/search?name=red\<close> on a store that holds
  the red mug is answered 404 \<open>Product not found\<close>, and so is the request without a
  name; \<open>search_handler\<close>, had it been reached, would have answered 200 with the red mug
  and 400 with \<open>Missing required query parameter: name\<close>.
\<close>

theorem search_route_shadowed:
  "app example_runtime kitchen_store search_red =
     (Response 404 (Json_error ''Product not found''), kitchen_store) \<and>
   app example_runtime kitchen_store search_nothing =
     (Response 404 (Json_error ''Product not found''), kitchen_store) \<and>
   asyncHandler kitchen_store (search_handler kitchen_store search_red) =
     (Response 200 (Json_products [red_mug]), kitchen_store) \<and>
   asyncHandler kitchen_store (search_handler kitchen_store search_nothing) =
     (Response 400 (Json_error ''Missing required query parameter: name''), kitchen_store)"
  by code_simp

lemma map_of_assign: "map_of (assign k v acc) = (map_of acc)(k \<mapsto> v)"
  by (induction acc) (auto simp: fun_eq_iff)

lemma sum_assign_new:
  "map_of acc k = None \<Longrightarrow>
   sum_counts (assign k v acc) = sum_counts acc + counted v"
  by (induction acc) (auto split: if_splits)

lemma sum_assign_old:
  "map_of acc k = Some (Count n) \<Longrightarrow>
   sum_counts (assign k (Count (Suc n)) acc) = Suc (sum_counts acc)"
  by (induction acc) (auto simp: counted_def split: if_splits)

lemma tally_step_ordinary:
  assumes "ordinary p" and "category p = Some (JStr c)"
  shows "tally_step num acc p =
           (case map_of acc c of
              Some (Count n) \<Rightarrow> assign c (Count (n + 1)) acc
            | Some (Glued s) \<Rightarrow> assign c (if s = [] then Count 1 else Glued (s @ ''1'')) acc
            | None \<Rightarrow> assign c (Count 1) acc)"
proof -
  from assms have "c \<noteq> ''__proto__''" and "map_of Object_prototype c = None"
    by (auto simp: ordinary_def inherited_def map_of_eq_None_iff)
  with assms(2) show ?thesis
    by (simp add: tally_step_def property_key_def split: option.splits tally.splits)
qed

lemma foldl_tally_step:
  assumes "list_all ordinary ps"
    and "\<forall>c. map_of acc c = (if count_category c seen = 0 then None
                              else Some (Count (count_category c seen)))"
    and "sum_counts acc = length seen"
  shows "(\<forall>c. map_of (foldl (tally_step num) acc ps) c =
               (if count_category c (seen @ ps) = 0 then None
                else Some (Count (count_category c (seen @ ps))))) \<and>
         sum_counts (foldl (tally_step num) acc ps) = length (seen @ ps)"
  using assms
proof (induction ps arbitrary: acc seen)
  case Nil
  then show ?case by simp
next
  case (Cons p ps)
  from Cons.prems(1) have op: "ordinary p" and ops: "list_all ordinary ps" by simp_all
  from op obtain c where c: "category p = Some (JStr c)"
    by (auto simp: ordinary_def split: option.splits json.splits)
  let ?acc = "tally_step num acc p"
  have cnt: "count_category d (seen @ [p]) = count_category d seen + (if d = c then 1 else 0)" for d
    using c by (simp add: count_category_def)
  have m: "\<forall>d. map_of ?acc d = (if count_category d (seen @ [p]) = 0 then None
                              else Some (Count (count_category d (seen @ [p]))))"
    using Cons.prems(2)
    by (simp add: tally_step_ordinary[OF op c] cnt map_of_assign split: option.splits)
  have s: "sum_counts ?acc = length (seen @ [p])"
  proof (cases "count_category c seen = 0")
    case True
    with Cons.prems(2) have "map_of acc c = None" by simp
    moreover have "counted (Count 1) = 1" by (simp add: counted_def)
    ultimately show ?thesis
      using Cons.prems(3) by (simp add: tally_step_ordinary[OF op c] sum_assign_new)
  next
    case False
    with Cons.prems(2) have "map_of acc c = Some (Count (count_category c seen))" by simp
    with Cons.prems(3) show ?thesis
      by (simp add: tally_step_ordinary[OF op c] sum_assign_old)
  qed
  from Cons.IH[OF ops m s] show ?case by simp
qed

lemma stats_handler_counts:
  assumes "list_all ordinary products"
  shows "\<exists>stats. stats_handler rt products = Inr (Response 200 (Json_stats stats), products) \<and>
           (\<forall>c. map_of stats c = (if count_category c products = 0 then None
                                   else Some (Count (count_category c products)))) \<and>
           sum_counts stats = length products"
  using foldl_tally_step[OF assms, of "[]" "[]" "Number_toString rt"]
  by (simp add: stats_handler_def count_category_def)

lemma stats_handler_inherited:
  "stats_handler example_runtime odd_store =
     Inr (Response 200 (Json_stats [(''constructor'', Glued ''function Object() { [native code] }1'')]),
          odd_store)"
  by code_simp

text \<open>
  Claim C2 fails on the code. \<open>GET /api/products/stats\<close> is answered 404
  \<open>Product not found\<close>; \<open>stats_handler\<close>, had it been reached, would have answered 200
  with one count for each spelling of the category.
\<close>

theorem stats_route_shadowed:
  "app example_runtime kitchen_store get_stats =
     (Response 404 (Json_error ''Product not found''), kitchen_store) \<and>
   asyncHandler kitchen_store (stats_handler example_runtime kitchen_store) =
     (Response 200 (Json_stats [(''Kitchen'', Count 1), (''kitchen'', Count 1),
                                (''Stationery'', Count 1), (''KITCHEN'', Count 1)]),
      kitchen_store)"
  by code_simp

end
